theory Spec2Isabelle
  imports Complex_Main
begin

section \<open>The training launcher \<^verbatim>\<open>scripts/train.py\<close>\<close>

text \<open>
  The script is a single top-level sequence of statements.  Each section of it is a
  function below, named after the comment or the variable that heads the section, and
  \<open>run\<close> composes them in the order of the script.  Python exceptions are values of
  the type \<open>error\<close>; a name that a missing \<^verbatim>\<open>else\<close> branch leaves unbound is an
  \<open>option\<close>, and reading it raises \<^verbatim>\<open>NameError\<close>.  The collaborators
  (\<^verbatim>\<open>data_generator\<close>, \<^verbatim>\<open>models\<close>, \<^verbatim>\<open>losses\<close>, \<^verbatim>\<open>training_config\<close>, keras) are opaque:
  a call to one of them is recorded as a constructor applied to the arguments the script
  passes.  Console output is not modelled.
\<close>

subsection \<open>Errors, arguments and configuration\<close>

datatype error =
    NameError string
  | ValueError string
  | IndexError string
  | ZeroDivisionError string
  | OverflowError string
  | OSError string

text \<open>
  The namespace \<^verbatim>\<open>args\<close> of the argument parser (lines 48 to 65); \<open>experiment_arg\<close> is
  \<^verbatim>\<open>args.experiment\<close>.
\<close>

record cli_args =
  config :: string
  experiment_arg :: "string option"
  suffix :: "string option"
  debug :: bool

text \<open>
  The attributes of \<^verbatim>\<open>exp_config\<close> that the script reads, after \<^verbatim>\<open>read_config()\<close>.
  \<open>corruption_frac\<close> is only passed on; it holds the value of the float.
\<close>

record training_config =
  dataset :: string
  task :: string
  input_domain :: string
  output_domain :: string
  corruption_frac :: rat
  batch_size :: int
  architecture :: string
  nonlinearity :: string
  kernel_size :: int
  num_features :: int
  num_layers :: int
  loss_type :: string
  loss :: string
  num_epochs :: int
  job_name :: string

subsection \<open>Python's \<^verbatim>\<open>str\<close> on integers and \<^verbatim>\<open>os.path.join\<close>\<close>

definition digit_char :: "nat \<Rightarrow> char" where
  "digit_char d = ''0123456789'' ! (d mod 10)"

fun str_nat :: "nat \<Rightarrow> string" where
  "str_nat n = (if n < 10 then [digit_char n] else str_nat (n div 10) @ [digit_char (n mod 10)])"

declare str_nat.simps [simp del]

definition str_int :: "int \<Rightarrow> string" where
  "str_int i = (if i < 0 then CHR ''-'' # str_nat (nat (- i)) else str_nat (nat i))"

text \<open>
  \<^verbatim>\<open>posixpath.join(a, b)\<close> for two arguments: an absolute \<open>b\<close> replaces \<open>a\<close>; otherwise
  \<open>b\<close> is appended, after a separator unless \<open>a\<close> is empty or ends with one.
\<close>

definition os_path_join :: "string \<Rightarrow> string \<Rightarrow> string" where
  "os_path_join a b =
     (if take 1 b = ''/'' then b
      else if a = [] \<or> last a = CHR ''/'' then a @ b
      else a @ ''/'' @ b)"

subsection \<open>Job name and run directory (lines 128 to 138)\<close>

text \<open>
  \<open>drawn\<close> is the value that \<^verbatim>\<open>np.random.randint(0, 10)\<close> returns; the call is made, and
  the value used, only under \<^verbatim>\<open>--debug\<close>.
\<close>

definition make_job_name :: "training_config \<Rightarrow> cli_args \<Rightarrow> int \<Rightarrow> string" where
  "make_job_name exp_config args drawn =
     (let job_name0 = job_name exp_config;
          job_name1 = (if debug args then ''debug_job'' @ str_int drawn else job_name0)
      in case suffix args of
           Some s \<Rightarrow> job_name1 @ ''*'' @ s
         | None \<Rightarrow> job_name1)"

definition make_dir_path :: "string \<Rightarrow> cli_args \<Rightarrow> string" where
  "make_dir_path TRAIN_DIR args =
     (case experiment_arg args of
        Some e \<Rightarrow> (if \<not> debug args then TRAIN_DIR @ e @ ''/'' else TRAIN_DIR)
      | None \<Rightarrow> TRAIN_DIR)"

definition make_checkpoint_dir :: "string \<Rightarrow> training_config \<Rightarrow> cli_args \<Rightarrow> int \<Rightarrow> string" where
  "make_checkpoint_dir TRAIN_DIR exp_config args drawn =
     os_path_join (make_dir_path TRAIN_DIR args) (make_job_name exp_config args drawn)"

definition checkpoint_name :: string where
  "checkpoint_name = ''cp-{epoch:04d}.ckpt''"

subsection \<open>Loss selection (lines 167 to 172)\<close>

text \<open>A call \<^verbatim>\<open>losses.f(output_domain, kind)\<close>, recorded with its two arguments.\<close>

datatype loss_fn =
    image_loss string string
  | fourier_loss string string
  | image_mag_loss string string

definition select_loss :: "training_config \<Rightarrow> error + loss_fn" where
  "select_loss exp_config =
     (if loss_type exp_config = ''image''
        then Inr (image_loss (output_domain exp_config) (loss exp_config))
      else if loss_type exp_config = ''freq''
        then Inr (fourier_loss (output_domain exp_config) (loss exp_config))
      else Inl (ValueError ''Unrecognized loss type.''))"

subsection \<open>Dataset, generators and architecture (lines 70 to 125)\<close>

text \<open>
  An image array is its shape; the script reads nothing else of it.  Neither dispatch has
  an \<^verbatim>\<open>else\<close> branch, so the names \<^verbatim>\<open>img_train\<close>, \<^verbatim>\<open>img_val\<close> and \<^verbatim>\<open>model\<close> may stay unbound:
  the value \<open>None\<close>.
\<close>

type_synonym ndarray = "nat list"

datatype generator = generate_data ndarray string string string rat int string

datatype model =
    get_conv_no_residual_model "nat \<times> nat \<times> nat" string int int int
  | get_conv_residual_model "nat \<times> nat \<times> nat" string int int int
  | get_interlacer_residual_model "nat \<times> nat \<times> nat" string int int int

text \<open>
  What the script takes from outside: the constant \<^verbatim>\<open>filepaths.TRAIN_DIR\<close>, the arrays the two
  loaders return, the integer \<^verbatim>\<open>np.random.randint(0, 10)\<close> returns, and the lines that
  \<^verbatim>\<open>model.summary\<close> passes to \<^verbatim>\<open>print_fn\<close>.
\<close>

record environment =
  TRAIN_DIR :: string
  get_mri_images :: "ndarray \<times> ndarray"
  get_mnist_images :: "ndarray \<times> ndarray"
  randint_0_10 :: int
  summary_lines :: "model \<Rightarrow> string list"

definition load_dataset :: "environment \<Rightarrow> training_config \<Rightarrow> (ndarray \<times> ndarray) option" where
  "load_dataset env exp_config =
     (if dataset exp_config = ''MRI'' then Some (get_mri_images env)
      else if dataset exp_config = ''MNIST'' then Some (get_mnist_images env)
      else None)"

definition make_generators ::
  "training_config \<Rightarrow> (ndarray \<times> ndarray) option \<Rightarrow> error + (ndarray \<times> generator \<times> generator)" where
  "make_generators exp_config imgs =
     (case imgs of
        None \<Rightarrow> Inl (NameError ''img_train'')
      | Some (img_train, img_val) \<Rightarrow>
          Inr (img_train,
               generate_data img_train (task exp_config) (input_domain exp_config)
                 (output_domain exp_config) (corruption_frac exp_config) (batch_size exp_config)
                 ''train'',
               generate_data img_val (task exp_config) (input_domain exp_config)
                 (output_domain exp_config) (corruption_frac exp_config) (batch_size exp_config)
                 ''val''))"

text \<open>\<^verbatim>\<open>a.shape[i]\<close> for a literal index \<open>i\<close>.\<close>

definition shape_at :: "ndarray \<Rightarrow> nat \<Rightarrow> error + nat" where
  "shape_at a i = (if i < length a then Inr (a ! i) else Inl (IndexError ''tuple index out of range''))"

definition pick_architecture :: "training_config \<Rightarrow> nat \<Rightarrow> model option" where
  "pick_architecture exp_config n =
     (if architecture exp_config = ''CONV'' then
        Some (get_conv_no_residual_model (n, n, 2) (nonlinearity exp_config)
                (kernel_size exp_config) (num_features exp_config) (num_layers exp_config))
      else if architecture exp_config = ''CONV_RESIDUAL'' then
        Some (get_conv_residual_model (n, n, 2) (nonlinearity exp_config)
                (kernel_size exp_config) (num_features exp_config) (num_layers exp_config))
      else if architecture exp_config = ''INTERLACER_RESIDUAL'' then
        Some (get_interlacer_residual_model (n, n, 2) (nonlinearity exp_config)
                (kernel_size exp_config) (num_features exp_config) (num_layers exp_config))
      else None)"

subsection \<open>The file system\<close>

text \<open>
  A path names a node by its components: the pieces between separators, without the empty
  ones and \<^verbatim>\<open>.\<close>, after a root marker for an absolute path.  The working directory (no
  component) and the root are directories in every file system.  Symbolic links,
  permissions and \<^verbatim>\<open>..\<close> are not modelled: \<^verbatim>\<open>..\<close> is a name like any other.
\<close>

datatype node = Dir | File string

type_synonym filesystem = "string list \<rightharpoonup> node"

fun split_sep :: "string \<Rightarrow> string list" where
  "split_sep [] = [[]]"
| "split_sep (c # cs) =
     (if c = CHR ''/'' then [] # split_sep cs
      else case split_sep cs of
             w # ws \<Rightarrow> (c # w) # ws
           | [] \<Rightarrow> [[c]])"

definition components :: "string \<Rightarrow> string list" where
  "components p =
     (if take 1 p = ''/'' then [''/''] else []) @
     filter (\<lambda>c. c \<noteq> [] \<and> c \<noteq> ''.'') (split_sep p)"

text \<open>A path that ends with a separator or with \<^verbatim>\<open>.\<close> can only name a directory.\<close>

definition names_dir_only :: "string \<Rightarrow> bool" where
  "names_dir_only p = (last (split_sep p) = [] \<or> last (split_sep p) = ''.'')"

definition node_at :: "filesystem \<Rightarrow> string list \<Rightarrow> node option" where
  "node_at fs k = (if k = [] \<or> k = [''/''] then Some Dir else fs k)"

text \<open>\<open>walk fs pre cs\<close> follows the components \<open>cs\<close> below \<open>pre\<close>, through directories only.\<close>

fun walk :: "filesystem \<Rightarrow> string list \<Rightarrow> string list \<Rightarrow> node option" where
  "walk fs pre [] = node_at fs pre"
| "walk fs pre (c # cs) =
     (case node_at fs pre of
        Some Dir \<Rightarrow> walk fs (pre @ [c]) cs
      | _ \<Rightarrow> None)"

definition stat :: "filesystem \<Rightarrow> string \<Rightarrow> node option" where
  "stat fs p =
     (if p = [] then None
      else case walk fs [] (components p) of
             Some (File c) \<Rightarrow> (if names_dir_only p then None else Some (File c))
           | r \<Rightarrow> r)"

definition os_path_exists :: "filesystem \<Rightarrow> string \<Rightarrow> bool" where
  "os_path_exists fs p = (stat fs p \<noteq> None)"

text \<open>
  \<^verbatim>\<open>os.makedirs(name)\<close> with \<^verbatim>\<open>exist_ok=False\<close>: the leaf must not exist, every missing
  directory on the way is created, and a file on the way is an error.
\<close>

fun mkdirs_from :: "filesystem \<Rightarrow> string list \<Rightarrow> string list \<Rightarrow> error + filesystem" where
  "mkdirs_from fs pre [] = Inr fs"
| "mkdirs_from fs pre (c # cs) =
     (case node_at fs (pre @ [c]) of
        None \<Rightarrow> mkdirs_from (fs(pre @ [c] \<mapsto> Dir)) (pre @ [c]) cs
      | Some Dir \<Rightarrow> mkdirs_from fs (pre @ [c]) cs
      | Some (File x) \<Rightarrow> Inl (OSError ''NotADirectoryError''))"

definition fs_makedirs :: "filesystem \<Rightarrow> string \<Rightarrow> error + filesystem" where
  "fs_makedirs fs p =
     (if p = [] then Inl (OSError ''FileNotFoundError'')
      else if walk fs [] (components p) \<noteq> None then Inl (OSError ''FileExistsError'')
      else mkdirs_from fs [] (components p))"

text \<open>\<^verbatim>\<open>open(p, 'rb').read()\<close>.\<close>

definition fs_read :: "filesystem \<Rightarrow> string \<Rightarrow> error + string" where
  "fs_read fs p =
     (if p = [] then Inl (OSError ''FileNotFoundError'')
      else case walk fs [] (components p) of
             None \<Rightarrow> Inl (OSError ''FileNotFoundError'')
           | Some Dir \<Rightarrow> Inl (OSError ''IsADirectoryError'')
           | Some (File c) \<Rightarrow>
               (if names_dir_only p then Inl (OSError ''NotADirectoryError'') else Inr c))"

text \<open>
  \<^verbatim>\<open>open(p, 'w')\<close> followed by writing \<open>c\<close>: the directory of \<open>p\<close> must exist, \<open>p\<close> must not
  be a directory, and the file is created or replaced.
\<close>

definition fs_write :: "filesystem \<Rightarrow> string \<Rightarrow> string \<Rightarrow> error + filesystem" where
  "fs_write fs p c =
     (if p = [] then Inl (OSError ''FileNotFoundError'')
      else if names_dir_only p then Inl (OSError ''IsADirectoryError'')
      else case walk fs [] (butlast (components p)) of
             Some Dir \<Rightarrow>
               (case node_at fs (components p) of
                  Some Dir \<Rightarrow> Inl (OSError ''IsADirectoryError'')
                | _ \<Rightarrow> Inr (fs(components p \<mapsto> File c)))
           | Some (File x) \<Rightarrow> Inl (OSError ''NotADirectoryError'')
           | None \<Rightarrow> Inl (OSError ''FileNotFoundError''))"

text \<open>
  \<^verbatim>\<open>shutil.rmtree(p, ignore_errors=True)\<close>: a directory goes with everything below it;
  anything else is left as it is, the error ignored.
\<close>

definition fs_rmtree :: "filesystem \<Rightarrow> string \<Rightarrow> filesystem" where
  "fs_rmtree fs p =
     (if p \<noteq> [] \<and> walk fs [] (components p) = Some Dir
      then (\<lambda>k. if take (length (components p)) k = components p
                  then (if components p = [] \<and> take 1 k = [''/''] then fs k else None)
                  else fs k)
      else fs)"

subsection \<open>The state of a run\<close>

text \<open>
  The calls that changed the file system, in the order they were made, and the directories
  that the handlers registered with \<^verbatim>\<open>atexit\<close> will delete.
\<close>

datatype effect =
    Makedirs string
  | Copyfile string string
  | Open_w string
  | Write string string

record world =
  disk :: filesystem
  effects :: "effect list"
  exit_hooks :: "string list"

text \<open>Sequencing: an exception ends the script with the state reached so far.\<close>

definition then_step ::
  "world \<times> (error + 'a) \<Rightarrow> ('a \<Rightarrow> world \<Rightarrow> world \<times> (error + 'b)) \<Rightarrow> world \<times> (error + 'b)" where
  "then_step r f = (case r of (w, Inl e) \<Rightarrow> (w, Inl e) | (w, Inr x) \<Rightarrow> f x w)"

definition os_makedirs :: "string \<Rightarrow> world \<Rightarrow> world \<times> (error + unit)" where
  "os_makedirs p w =
     (case fs_makedirs (disk w) p of
        Inl e \<Rightarrow> (w, Inl e)
      | Inr d \<Rightarrow> (w\<lparr>disk := d, effects := effects w @ [Makedirs p]\<rparr>, Inr ()))"

text \<open>
  \<^verbatim>\<open>shutil.copyfile(src, dst)\<close>: refuses to copy a file onto itself, then reads \<open>src\<close> and
  writes \<open>dst\<close>.
\<close>

definition copyfile :: "string \<Rightarrow> string \<Rightarrow> world \<Rightarrow> world \<times> (error + unit)" where
  "copyfile src dst w =
     (if stat (disk w) src \<noteq> None \<and> stat (disk w) dst \<noteq> None \<and> components src = components dst
      then (w, Inl (OSError ''SameFileError''))
      else case fs_read (disk w) src of
             Inl e \<Rightarrow> (w, Inl e)
           | Inr c \<Rightarrow>
               (case fs_write (disk w) dst c of
                  Inl e \<Rightarrow> (w, Inl e)
                | Inr d \<Rightarrow> (w\<lparr>disk := d, effects := effects w @ [Copyfile src dst]\<rparr>, Inr ())))"

subsection \<open>Checkpointing, summary and tensorboard (lines 127 to 164)\<close>

text \<open>Lines 139 and 140.\<close>

definition create_checkpoint_dir :: "string \<Rightarrow> world \<Rightarrow> world \<times> (error + unit)" where
  "create_checkpoint_dir checkpoint_dir w =
     (if \<not> os_path_exists (disk w) checkpoint_dir then os_makedirs checkpoint_dir w
      else (w, Inr ()))"

text \<open>Lines 145 to 149: \<^verbatim>\<open>del_logs\<close> is registered, to run when the process exits.\<close>

definition register_del_logs :: "cli_args \<Rightarrow> string \<Rightarrow> world \<Rightarrow> world \<times> (error + unit)" where
  "register_del_logs args checkpoint_dir w =
     (if debug args then (w\<lparr>exit_hooks := exit_hooks w @ [checkpoint_dir]\<rparr>, Inr ())
      else (w, Inr ()))"

text \<open>
  Lines 152 to 154: the file is opened, which creates or empties it, before the name
  \<^verbatim>\<open>model\<close> is read; each line of the summary is written with a newline after it.
\<close>

definition summary_text :: "environment \<Rightarrow> model \<Rightarrow> string" where
  "summary_text env m = concat (map (\<lambda>x. x @ [CHR 0x0A]) (summary_lines env m))"

definition write_summary ::
  "environment \<Rightarrow> model option \<Rightarrow> string \<Rightarrow> world \<Rightarrow> world \<times> (error + unit)" where
  "write_summary env model summary_file w =
     (case fs_write (disk w) summary_file [] of
        Inl e \<Rightarrow> (w, Inl e)
      | Inr d \<Rightarrow>
          (let w1 = w\<lparr>disk := d, effects := effects w @ [Open_w summary_file]\<rparr>
           in case model of
                None \<Rightarrow> (w1, Inl (NameError ''model''))
              | Some m \<Rightarrow>
                  (let text = summary_text env m
                   in (w1\<lparr>disk := (disk w1)(components summary_file \<mapsto> File text),
                           effects := effects w1 @ [Write summary_file text]\<rparr>, Inr ()))))"

text \<open>Lines 157 to 162.\<close>

definition create_tensorboard_dir :: "string \<Rightarrow> world \<Rightarrow> world \<times> (error + unit)" where
  "create_tensorboard_dir tb_dir w =
     (if os_path_exists (disk w) tb_dir
      then (w, Inl (ValueError ''Tensorboard logs have already been created under this name.''))
      else os_makedirs tb_dir w)"

text \<open>The error of line 159, the spec's RunExistsError.\<close>

definition tb_exists_error :: error where
  "tb_exists_error = ValueError ''Tensorboard logs have already been created under this name.''"

text \<open>
  The two keras callbacks, recorded with the path each is given; their other arguments are
  constants of the script.
\<close>

datatype callback = ModelCheckpoint string | TensorBoard string

definition run_director ::
  "environment \<Rightarrow> cli_args \<Rightarrow> training_config \<Rightarrow> model option \<Rightarrow> world \<Rightarrow>
   world \<times> (error + callback \<times> callback)" where
  "run_director env args exp_config model w0 =
     (let job = make_job_name exp_config args (randint_0_10 env);
          checkpoint_dir = os_path_join (make_dir_path (TRAIN_DIR env) args) job;
          checkpoint_path = os_path_join checkpoint_dir checkpoint_name;
          summary_file = os_path_join checkpoint_dir ''summary.txt'';
          tb_dir = os_path_join checkpoint_dir ''tensorboard/''
      in then_step (create_checkpoint_dir checkpoint_dir w0) (\<lambda>_ w.
         then_step (register_del_logs args checkpoint_dir w) (\<lambda>_ w.
         then_step (copyfile (config args) (os_path_join checkpoint_dir (job @ ''_config.ini'')) w) (\<lambda>_ w.
         then_step (write_summary env model summary_file w) (\<lambda>_ w.
         then_step (create_tensorboard_dir tb_dir w) (\<lambda>_ w.
         (w, Inr (ModelCheckpoint checkpoint_path, TensorBoard tb_dir))))))))"

text \<open>The paths of a run, as \<open>run_director\<close> computes them (lines 136, 151, 152 and 157).\<close>

definition run_checkpoint_dir :: "environment \<Rightarrow> cli_args \<Rightarrow> training_config \<Rightarrow> string" where
  "run_checkpoint_dir env args exp_config =
     make_checkpoint_dir (TRAIN_DIR env) exp_config args (randint_0_10 env)"

definition run_config_copy :: "environment \<Rightarrow> cli_args \<Rightarrow> training_config \<Rightarrow> string" where
  "run_config_copy env args exp_config =
     os_path_join (run_checkpoint_dir env args exp_config)
       (make_job_name exp_config args (randint_0_10 env) @ ''_config.ini'')"

definition run_summary_file :: "environment \<Rightarrow> cli_args \<Rightarrow> training_config \<Rightarrow> string" where
  "run_summary_file env args exp_config =
     os_path_join (run_checkpoint_dir env args exp_config) ''summary.txt''"

definition run_tb_dir :: "environment \<Rightarrow> cli_args \<Rightarrow> training_config \<Rightarrow> string" where
  "run_tb_dir env args exp_config =
     os_path_join (run_checkpoint_dir env args exp_config) ''tensorboard/''"

text \<open>What \<^verbatim>\<open>atexit\<close> does when the process ends, whether by an exception or not.\<close>

definition process_exit :: "world \<Rightarrow> world" where
  "process_exit w = w\<lparr>disk := fold (\<lambda>p d. fs_rmtree d p) (rev (exit_hooks w)) (disk w), exit_hooks := []\<rparr>"

subsection \<open>Compiling the model (lines 174 to 185)\<close>

text \<open>The optimizer is recorded with its learning rate as the script writes it.\<close>

datatype optimizer = Adam string

record compile_call =
  compile_optimizer :: optimizer
  compile_loss :: loss_fn
  compile_metrics :: "loss_fn list"

definition setup_model ::
  "training_config \<Rightarrow> model option \<Rightarrow> loss_fn \<Rightarrow> error + model \<times> compile_call" where
  "setup_model exp_config model used_loss =
     (let fourier_l1 = fourier_loss (output_domain exp_config) ''L1'';
          fourier_l2 = fourier_loss (output_domain exp_config) ''L2'';
          image_l1 = image_loss (output_domain exp_config) ''L1'';
          image_l2 = image_loss (output_domain exp_config) ''L2'';
          image_mag_l1 = image_mag_loss (output_domain exp_config) ''L1'';
          lr = ''1e-3''
      in case model of
           None \<Rightarrow> Inl (NameError ''model'')
         | Some m \<Rightarrow>
             Inr (m, \<lparr>compile_optimizer = Adam lr, compile_loss = used_loss,
                      compile_metrics = [fourier_l1, fourier_l2, image_l1, image_l2]\<rparr>))"

subsection \<open>Python's \<^verbatim>\<open>/\<close> on integers and \<^verbatim>\<open>int\<close> on floats\<close>

text \<open>
  \<^verbatim>\<open>a / b\<close> on two integers is the quotient rounded to the nearest IEEE 754 double, ties to
  the even significand.  A finite double is \<open>Float m e\<close>, the number \<open>m * 2 ^ e\<close> with a
  significand below \<open>2 ^ 53\<close> in size and an exponent from \<open>-1074\<close> up.
\<close>

datatype pyfloat = Float int int

fun bit_length :: "nat \<Rightarrow> nat" where
  "bit_length n = (if n = 0 then 0 else Suc (bit_length (n div 2)))"

declare bit_length.simps [simp del]

text \<open>The integer nearest to \<open>n / d\<close>, the even one of two equally near.\<close>

definition round_half_even_div :: "nat \<Rightarrow> nat \<Rightarrow> nat" where
  "round_half_even_div n d =
     (let q = n div d; r = n mod d
      in if 2 * r < d then q
         else if d < 2 * r then q + 1
         else if even q then q else q + 1)"

text \<open>For positive \<open>a\<close> and \<open>b\<close>: the \<open>k\<close> with \<open>2 ^ k \<le> a / b < 2 ^ (k + 1)\<close>.\<close>

definition floor_log2_quot :: "nat \<Rightarrow> nat \<Rightarrow> int" where
  "floor_log2_quot a b =
     (let k = int (bit_length a) - int (bit_length b)
      in if (if 0 \<le> k then b * 2 ^ nat k \<le> a else b \<le> a * 2 ^ nat (- k)) then k else k - 1)"

text \<open>
  The significand and the exponent of the double nearest to \<open>a / b\<close>, for positive \<open>a\<close>
  and \<open>b\<close>: 53 significant bits, fewer below \<open>2 ^ (-1022)\<close>.
\<close>

definition truediv_nat :: "nat \<Rightarrow> nat \<Rightarrow> nat \<times> int" where
  "truediv_nat a b =
     (let e = max (floor_log2_quot a b - 52) (- 1074);
          m = (if 0 \<le> e then round_half_even_div a (b * 2 ^ nat e)
               else round_half_even_div (a * 2 ^ nat (- e)) b)
      in (m, e))"

definition py_truediv :: "int \<Rightarrow> int \<Rightarrow> error + pyfloat" where
  "py_truediv a b =
     (if b = 0 then Inl (ZeroDivisionError ''division by zero'')
      else if a = 0 then Inr (Float 0 0)
      else case truediv_nat (nat \<bar>a\<bar>) (nat \<bar>b\<bar>) of
             (m, e) \<Rightarrow>
               if 0 \<le> e \<and> 2 ^ 1024 \<le> m * 2 ^ nat e
               then Inl (OverflowError ''integer division result too large for a float'')
               else Inr (Float (sgn a * sgn b * int m) e))"

text \<open>\<^verbatim>\<open>int(x)\<close> on a float drops the fraction, towards zero.\<close>

fun py_int :: "pyfloat \<Rightarrow> int" where
  "py_int (Float m e) =
     (if 0 \<le> e then m * 2 ^ nat e else sgn m * (\<bar>m\<bar> div 2 ^ nat (- e)))"

subsection \<open>Sizing and starting the fit loop (lines 190 to 209)\<close>

definition fit_sizing :: "cli_args \<Rightarrow> training_config \<Rightarrow> ndarray \<Rightarrow> error + int \<times> int \<times> int" where
  "fit_sizing args exp_config img_train =
     (if debug args then Inr (5, 2, 1)
      else case shape_at img_train 0 of
             Inl e \<Rightarrow> Inl e
           | Inr n0 \<Rightarrow>
               (case py_truediv (int n0) (batch_size exp_config) of
                  Inl e \<Rightarrow> Inl e
                | Inr x \<Rightarrow> Inr (num_epochs exp_config, py_int x, 8)))"

text \<open>The call \<^verbatim>\<open>model.fit_generator(...)\<close>, where the script hands over to keras.\<close>

record fit_call =
  fit_model :: model
  fit_compiled :: compile_call
  fit_generator :: generator
  epochs :: int
  steps_per_epoch :: int
  validation_data :: generator
  validation_steps :: int
  callbacks :: "callback list"
  workers :: int

subsection \<open>The script\<close>

definition run ::
  "environment \<Rightarrow> cli_args \<Rightarrow> training_config \<Rightarrow> world \<Rightarrow> world \<times> (error + fit_call)" where
  "run env args exp_config w0 =
     then_step (w0, make_generators exp_config (load_dataset env exp_config))
       (\<lambda>(img_train, train_generator, val_generator) w.
     then_step (w, shape_at img_train 1) (\<lambda>n w.
     then_step (run_director env args exp_config (pick_architecture exp_config n) w)
       (\<lambda>(cp_callback, tb_callback) w.
     then_step (w, select_loss exp_config) (\<lambda>used_loss w.
     then_step (w, setup_model exp_config (pick_architecture exp_config n) used_loss)
       (\<lambda>(m, compiled) w.
     then_step (w, fit_sizing args exp_config img_train)
       (\<lambda>(num_epochs', steps, val_steps) w.
     (w, Inr \<lparr>fit_model = m, fit_compiled = compiled, fit_generator = train_generator,
              epochs = num_epochs', steps_per_epoch = steps,
              validation_data = val_generator, validation_steps = val_steps,
              callbacks = [cp_callback, tb_callback], workers = 1\<rparr>)))))))"

subsection \<open>A concrete run\<close>

text \<open>An MNIST configuration and the command line of the script's usage note.\<close>

definition example_config :: training_config where
  "example_config =
     \<lparr>dataset = ''MNIST'', task = ''undersample'', input_domain = ''FREQ'',
      output_domain = ''FREQ'', corruption_frac = 3 / 4, batch_size = 32,
      architecture = ''CONV'', nonlinearity = ''relu'', kernel_size = 9, num_features = 32,
      num_layers = 6, loss_type = ''freq'', loss = ''L1'', num_epochs = 20,
      job_name = ''run1''\<rparr>"

definition example_args :: cli_args where
  "example_args =
     \<lparr>config = ''/configs/run1.ini'', experiment_arg = Some ''loss_comparison_runs'',
      suffix = Some ''trial1'', debug = False\<rparr>"

definition example_env :: environment where
  "example_env =
     \<lparr>TRAIN_DIR = ''/train/'',
      get_mri_images = ([6400, 256, 256], [800, 256, 256]),
      get_mnist_images = ([6400, 28, 28], [1000, 28, 28]),
      randint_0_10 = 7,
      summary_lines = (\<lambda>m. [''Model: model'', ''Total params: 1''])\<rparr>"

definition example_disk :: filesystem where
  "example_disk =
     [[''/'', ''configs''] \<mapsto> Dir,
      [''/'', ''configs'', ''run1.ini''] \<mapsto> File ''[DATA]'',
      [''/'', ''train''] \<mapsto> Dir]"

definition example_world :: world where
  "example_world = \<lparr>disk = example_disk, effects = [], exit_hooks = []\<rparr>"

definition example_disk_rerun :: filesystem where
  "example_disk_rerun =
     example_disk
       ([''/'', ''train'', ''loss_comparison_runs''] \<mapsto> Dir,
        [''/'', ''train'', ''loss_comparison_runs'', ''run1*trial1''] \<mapsto> Dir,
        [''/'', ''train'', ''loss_comparison_runs'', ''run1*trial1'', ''tensorboard''] \<mapsto> Dir)"

definition example_world_rerun :: world where
  "example_world_rerun = \<lparr>disk = example_disk_rerun, effects = [], exit_hooks = []\<rparr>"

definition example_model :: model where
  "example_model = get_conv_no_residual_model (28, 28, 2) ''relu'' 9 32 6"

text \<open>The state in which a second run of the same job stops.\<close>

definition example_world_aborted :: world where
  "example_world_aborted =
     \<lparr>disk = example_disk_rerun
        ([''/'', ''train'', ''loss_comparison_runs'', ''run1*trial1'', ''run1*trial1_config.ini'']
           \<mapsto> File ''[DATA]'',
         [''/'', ''train'', ''loss_comparison_runs'', ''run1*trial1'', ''summary.txt'']
           \<mapsto> File (summary_text example_env example_model)),
      effects =
        [Copyfile ''/configs/run1.ini''
           ''/train/loss_comparison_runs/run1*trial1/run1*trial1_config.ini'',
         Open_w ''/train/loss_comparison_runs/run1*trial1/summary.txt'',
         Write ''/train/loss_comparison_runs/run1*trial1/summary.txt''
           (summary_text example_env example_model)],
      exit_hooks = []\<rparr>"

section \<open>Properties\<close>

subsection \<open>The file system: what creating and writing keep\<close>

lemma mkdirs_from_mono:
  "mkdirs_from fs pre cs = Inr fs' \<Longrightarrow> node_at fs k = Some n \<Longrightarrow> node_at fs' k = Some n"
proof (induction cs arbitrary: fs pre)
  case Nil
  then show ?case by simp
next
  case (Cons c cs)
  show ?case
  proof (cases "node_at fs (pre @ [c])")
    case None
    with Cons.prems(1) have rec: "mkdirs_from (fs(pre @ [c] \<mapsto> Dir)) (pre @ [c]) cs = Inr fs'"
      by simp
    from None Cons.prems(2) have "k \<noteq> pre @ [c]" by auto
    with Cons.prems(2) have "node_at (fs(pre @ [c] \<mapsto> Dir)) k = Some n"
      by (auto simp: node_at_def split: if_splits)
    with rec show ?thesis by (rule Cons.IH)
  next
    case (Some x)
    with Cons.prems show ?thesis
      by (cases x) (auto intro: Cons.IH)
  qed
qed

lemma walk_mono:
  "(\<And>k n. node_at fs k = Some n \<Longrightarrow> node_at fs' k = Some n) \<Longrightarrow>
   walk fs pre cs = Some n \<Longrightarrow> walk fs' pre cs = Some n"
proof (induction cs arbitrary: pre)
  case Nil
  then show ?case by simp
next
  case (Cons c cs)
  from Cons.prems(2) have d: "node_at fs pre = Some Dir"
    by (auto split: option.splits node.splits)
  with Cons.prems(2) have "walk fs (pre @ [c]) cs = Some n" by simp
  with Cons.prems(1) have "walk fs' (pre @ [c]) cs = Some n" by (rule Cons.IH)
  moreover from d have "node_at fs' pre = Some Dir" by (rule Cons.prems(1))
  ultimately show ?case by simp
qed

lemma mkdirs_from_walk:
  "mkdirs_from fs pre cs = Inr fs' \<Longrightarrow> node_at fs pre = Some Dir \<Longrightarrow>
   walk fs' pre cs = Some Dir"
proof (induction cs arbitrary: fs pre)
  case Nil
  then show ?case by simp
next
  case (Cons c cs)
  from Cons.prems have top: "node_at fs' pre = Some Dir"
    by (rule mkdirs_from_mono)
  show ?case
  proof (cases "node_at fs (pre @ [c])")
    case None
    with Cons.prems(1) have rec: "mkdirs_from (fs(pre @ [c] \<mapsto> Dir)) (pre @ [c]) cs = Inr fs'"
      by simp
    have "node_at (fs(pre @ [c] \<mapsto> Dir)) (pre @ [c]) = Some Dir"
      by (simp add: node_at_def)
    with rec have "walk fs' (pre @ [c]) cs = Some Dir" by (rule Cons.IH)
    with top show ?thesis by simp
  next
    case (Some x)
    with Cons.prems(1) have x: "x = Dir" by (cases x) auto
    with Some Cons.prems(1) have "mkdirs_from fs (pre @ [c]) cs = Inr fs'" by simp
    moreover from Some x have "node_at fs (pre @ [c]) = Some Dir" by simp
    ultimately have "walk fs' (pre @ [c]) cs = Some Dir" by (rule Cons.IH)
    with top show ?thesis by simp
  qed
qed

lemma fs_makedirs_exists: "fs_makedirs fs p = Inr fs' \<Longrightarrow> os_path_exists fs' p"
proof -
  assume h: "fs_makedirs fs p = Inr fs'"
  then have p: "p \<noteq> []" and m: "mkdirs_from fs [] (components p) = Inr fs'"
    by (auto simp: fs_makedirs_def split: if_splits)
  have "node_at fs [] = Some Dir" by (simp add: node_at_def)
  with m have "walk fs' [] (components p) = Some Dir" by (rule mkdirs_from_walk)
  with p show ?thesis by (simp add: os_path_exists_def stat_def)
qed

lemma fs_makedirs_mono:
  "fs_makedirs fs p = Inr fs' \<Longrightarrow> walk fs pre cs = Some n \<Longrightarrow> walk fs' pre cs = Some n"
proof -
  assume h: "fs_makedirs fs p = Inr fs'" and w: "walk fs pre cs = Some n"
  from h have m: "mkdirs_from fs [] (components p) = Inr fs'"
    by (auto simp: fs_makedirs_def split: if_splits)
  show ?thesis
    by (rule walk_mono [OF _ w]) (rule mkdirs_from_mono [OF m])
qed

text \<open>Writing a file where no directory is leaves every directory and every other file.\<close>

lemma walk_dir_mono:
  "(\<And>k. node_at fs k = Some Dir \<Longrightarrow> node_at fs' k = Some Dir) \<Longrightarrow>
   walk fs pre cs = Some Dir \<Longrightarrow> walk fs' pre cs = Some Dir"
proof (induction cs arbitrary: pre)
  case Nil
  then show ?case by simp
next
  case (Cons c cs)
  from Cons.prems(2) have d: "node_at fs pre = Some Dir"
    by (auto split: option.splits node.splits)
  with Cons.prems(2) have "walk fs (pre @ [c]) cs = Some Dir" by simp
  with Cons.prems(1) have "walk fs' (pre @ [c]) cs = Some Dir" by (rule Cons.IH)
  moreover from d have "node_at fs' pre = Some Dir" by (rule Cons.prems(1))
  ultimately show ?case by simp
qed

lemma node_at_write_dir:
  "node_at fs key \<noteq> Some Dir \<Longrightarrow> node_at fs k = Some Dir \<Longrightarrow>
   node_at (fs(key \<mapsto> File c)) k = Some Dir"
  by (auto simp: node_at_def split: if_splits)

lemma write_walk_dir:
  "node_at fs key \<noteq> Some Dir \<Longrightarrow> walk fs pre cs = Some Dir \<Longrightarrow>
   walk (fs(key \<mapsto> File c)) pre cs = Some Dir"
  by (erule walk_dir_mono [rotated]) (rule node_at_write_dir)

lemma walk_snoc:
  "walk fs pre (xs @ [x]) =
     (case walk fs pre xs of Some Dir \<Rightarrow> node_at fs (pre @ xs @ [x]) | _ \<Rightarrow> None)"
  by (induction xs arbitrary: pre) (auto split: option.splits node.splits)

lemma walk_file_parent:
  "walk fs [] k = Some (File c) \<Longrightarrow>
   k \<noteq> [] \<and> walk fs [] (butlast k) = Some Dir \<and> node_at fs k = Some (File c)"
proof -
  assume h: "walk fs [] k = Some (File c)"
  then have ne: "k \<noteq> []" by (auto simp: node_at_def)
  then have k: "k = butlast k @ [last k]" by simp
  from h have "walk fs [] (butlast k @ [last k]) = Some (File c)" using k by simp
  then have "walk fs [] (butlast k) = Some Dir \<and> node_at fs (butlast k @ [last k]) = Some (File c)"
    by (auto simp: walk_snoc split: option.splits node.splits)
  with ne k show ?thesis by simp
qed

lemma write_walk_other:
  assumes nd: "node_at fs key \<noteq> Some Dir" and ne: "k \<noteq> key"
    and w: "walk fs [] k = Some (File c)"
  shows "walk (fs(key \<mapsto> File c')) [] k = Some (File c)"
proof -
  from w have k: "k \<noteq> []" and par: "walk fs [] (butlast k) = Some Dir"
    and leaf: "node_at fs k = Some (File c)"
    by (auto dest: walk_file_parent)
  from nd par have "walk (fs(key \<mapsto> File c')) [] (butlast k) = Some Dir" by (rule write_walk_dir)
  moreover from leaf ne have "node_at (fs(key \<mapsto> File c')) k = Some (File c)"
    by (auto simp: node_at_def split: if_splits)
  moreover from k have "k = butlast k @ [last k]" by simp
  ultimately show ?thesis
    using walk_snoc [of "fs(key \<mapsto> File c')" "[]" "butlast k" "last k"] by simp
qed


lemma split_sep_nonempty: "split_sep p \<noteq> []"
  by (cases p) (auto split: list.splits)

lemma split_sep_no_sep: "CHR ''/'' \<notin> set t \<Longrightarrow> split_sep t = [t]"
  by (induction t) auto

lemma split_sep_at_sep: "split_sep (xs @ CHR ''/'' # ys) = split_sep xs @ split_sep ys"
proof (induction xs)
  case Nil
  show ?case by simp
next
  case (Cons x xs)
  then show ?case
    using split_sep_nonempty [of xs] by (cases "split_sep xs") auto
qed

lemma split_sep_append_tail:
  "CHR ''/'' \<notin> set t \<Longrightarrow>
   split_sep (xs @ t) = butlast (split_sep xs) @ [last (split_sep xs) @ t]"
proof (induction xs)
  case Nil
  then show ?case by (simp add: split_sep_no_sep)
next
  case (Cons x xs)
  obtain a r where r: "split_sep xs = a # r"
    using split_sep_nonempty [of xs] by (cases "split_sep xs") auto
  show ?case
  proof (cases r)
    case Nil
    with r Cons show ?thesis by auto
  next
    case (Cons b r')
    with r Cons.IH [OF Cons.prems] show ?thesis by auto
  qed
qed

lemma last_split_sep_join: "last (split_sep (os_path_join a b)) = last (split_sep b)"
proof -
  have sep: "last (split_sep (x @ CHR ''/'' # b)) = last (split_sep b)" for x
    by (simp add: split_sep_at_sep split_sep_nonempty)
  show ?thesis
  proof (cases "take 1 b = ''/'' \<or> a = []")
    case True
    then show ?thesis by (auto simp: os_path_join_def)
  next
    case False
    then have a: "butlast a @ [last a] = a" by simp
    show ?thesis
    proof (cases "last a = CHR ''/''")
      case True
      with a obtain a' where a': "a = a' @ [CHR ''/'']" by metis
      have "last (split_sep ((a' @ [CHR ''/'']) @ b)) = last (split_sep b)"
        using sep [of a'] by simp
      with False True a' show ?thesis by (simp add: os_path_join_def)
    next
      case False
      with \<open>\<not> (take 1 b = ''/'' \<or> a = [])\<close> sep [of a] show ?thesis
        by (simp add: os_path_join_def)
    qed
  qed
qed

lemma last_filter_keep: "xs \<noteq> [] \<Longrightarrow> P (last xs) \<Longrightarrow> last (filter P xs) = last xs"
  by (induction xs) (auto simp: filter_empty_conv)

lemma split_sep_parts: "x \<in> set (split_sep p) \<Longrightarrow> CHR ''/'' \<notin> set x"
proof (induction p arbitrary: x)
  case Nil
  then show ?case by simp
next
  case (Cons c p)
  obtain a r where r: "split_sep p = a # r"
    using split_sep_nonempty [of p] by (cases "split_sep p") auto
  with Cons show ?case by (auto split: if_splits)
qed

lemma last_components:
  assumes "\<not> names_dir_only p"
  shows "components p \<noteq> [] \<and> last (components p) = last (split_sep p)"
proof -
  let ?P = "\<lambda>c. c \<noteq> [] \<and> c \<noteq> ''.''"
  from assms have P: "?P (last (split_sep p))" by (simp add: names_dir_only_def)
  have ne: "split_sep p \<noteq> []" by (rule split_sep_nonempty)
  then have "last (split_sep p) \<in> set (filter ?P (split_sep p))" using P by simp
  then have f: "filter ?P (split_sep p) \<noteq> []" by (metis empty_iff empty_set)
  have "last (filter ?P (split_sep p)) = last (split_sep p)"
    using ne P by (rule last_filter_keep)
  with f show ?thesis by (simp add: components_def)
qed

lemma components_proper:
  assumes "\<not> names_dir_only p"
  shows "components p \<noteq> [] \<and> components p \<noteq> [''/'']"
proof -
  from assms have c: "components p \<noteq> []" and l: "last (components p) = last (split_sep p)"
    by (simp_all add: last_components)
  have "last (split_sep p) \<in> set (split_sep p)" by (simp add: split_sep_nonempty)
  then have "CHR ''/'' \<notin> set (last (split_sep p))" by (rule split_sep_parts)
  with l have "last (components p) \<noteq> ''/''" by auto
  with c show ?thesis by auto
qed

lemma summary_file_proper: "\<not> names_dir_only (os_path_join d ''summary.txt'')"
  by (simp add: names_dir_only_def last_split_sep_join)

lemma config_copy_last:
  "last (split_sep (os_path_join d (j @ ''_config.ini''))) = last (split_sep j) @ ''_config.ini''"
  by (simp add: last_split_sep_join split_sep_append_tail)

lemma config_copy_proper: "\<not> names_dir_only (os_path_join d (j @ ''_config.ini''))"
  by (simp add: names_dir_only_def config_copy_last)

lemma tb_dir_names_dir: "names_dir_only (os_path_join d ''tensorboard/'')"
  by (simp add: names_dir_only_def last_split_sep_join)

lemma config_copy_not_summary:
  "components (os_path_join d (j @ ''_config.ini'')) \<noteq> components (os_path_join d' ''summary.txt'')"
proof
  assume eq: "components (os_path_join d (j @ ''_config.ini'')) = components (os_path_join d' ''summary.txt'')"
  have "last (components (os_path_join d (j @ ''_config.ini''))) = last (split_sep j) @ ''_config.ini''"
    using last_components [OF config_copy_proper, of d j] by (simp add: config_copy_last)
  moreover have "last (components (os_path_join d' ''summary.txt'')) = ''summary.txt''"
    using last_components [OF summary_file_proper, of d'] by (simp add: last_split_sep_join)
  ultimately have "last (split_sep j) @ ''_config.ini'' = ''summary.txt''" using eq by simp
  then have "last (last (split_sep j) @ ''_config.ini'') = last ''summary.txt''" by simp
  then show False by simp
qed


lemma fs_write_eq:
  "fs_write fs p c = Inr fs' \<Longrightarrow>
   fs' = fs(components p \<mapsto> File c) \<and> node_at fs (components p) \<noteq> Some Dir \<and>
   \<not> names_dir_only p \<and> p \<noteq> [] \<and> walk fs [] (butlast (components p)) = Some Dir"
  by (auto simp: fs_write_def split: if_splits option.splits node.splits)

lemma fs_write_dirs:
  "fs_write fs p c = Inr fs' \<Longrightarrow> walk fs pre cs = Some Dir \<Longrightarrow> walk fs' pre cs = Some Dir"
  using fs_write_eq [of fs p c fs'] by (auto intro: write_walk_dir)

lemma fs_write_read: "fs_write fs p c = Inr fs' \<Longrightarrow> fs_read fs' p = Inr c"
proof -
  assume h: "fs_write fs p c = Inr fs'"
  let ?k = "components p"
  from h have eq: "fs' = fs(?k \<mapsto> File c)" and nd: "node_at fs ?k \<noteq> Some Dir"
    and pr: "\<not> names_dir_only p" and ne: "p \<noteq> []"
    and par: "walk fs [] (butlast ?k) = Some Dir"
    using fs_write_eq [of fs p c fs'] by auto
  from pr have k: "?k \<noteq> []" "?k \<noteq> [''/'']" using components_proper [of p] by auto
  from h par have "walk fs' [] (butlast ?k) = Some Dir" by (rule fs_write_dirs)
  moreover from eq k have "node_at fs' ?k = Some (File c)" by (simp add: node_at_def)
  moreover from k have "butlast ?k @ [last ?k] = ?k" by simp
  ultimately have "walk fs' [] ?k = Some (File c)"
    using walk_snoc [of fs' "[]" "butlast ?k" "last ?k"] by simp
  with ne pr show ?thesis by (simp add: fs_read_def)
qed

lemma fs_read_walk:
  "fs_read fs p = Inr c \<longleftrightarrow> p \<noteq> [] \<and> \<not> names_dir_only p \<and> walk fs [] (components p) = Some (File c)"
  by (auto simp: fs_read_def split: option.splits node.splits)

lemma fs_write_read_other:
  assumes h: "fs_write fs q c' = Inr fs'" and ne: "components p \<noteq> components q"
    and r: "fs_read fs p = Inr c"
  shows "fs_read fs' p = Inr c"
proof -
  from h have eq: "fs' = fs(components q \<mapsto> File c')" and nd: "node_at fs (components q) \<noteq> Some Dir"
    using fs_write_eq [of fs q c' fs'] by auto
  from r have w: "walk fs [] (components p) = Some (File c)" by (simp add: fs_read_walk)
  from nd ne w have "walk (fs(components q \<mapsto> File c')) [] (components p) = Some (File c)"
    by (rule write_walk_other)
  with eq r show ?thesis by (simp add: fs_read_walk)
qed

lemma fs_write_again:
  "fs_write fs p c = Inr fs' \<Longrightarrow> fs_write fs p t = Inr (fs'(components p \<mapsto> File t))"
  by (auto simp: fs_write_def split: if_splits option.splits node.splits)

lemma stat_dir_only:
  "names_dir_only p \<Longrightarrow> os_path_exists fs p \<longleftrightarrow> p \<noteq> [] \<and> walk fs [] (components p) = Some Dir"
  by (auto simp: os_path_exists_def stat_def split: option.splits node.splits)

lemma os_path_exists_walk:
  "os_path_exists fs p \<Longrightarrow> (\<And>n. walk fs [] (components p) = Some n \<Longrightarrow> walk fs' [] (components p) = Some n) \<Longrightarrow>
   os_path_exists fs' p"
  by (auto simp: os_path_exists_def stat_def split: option.splits node.splits if_splits)

lemma mkdirs_from_error: "mkdirs_from fs pre cs = Inl e \<Longrightarrow> \<exists>s. e = OSError s"
  by (induction cs arbitrary: fs pre) (auto split: option.splits node.splits)

lemma fs_makedirs_error: "fs_makedirs fs p = Inl e \<Longrightarrow> \<exists>s. e = OSError s"
  by (auto simp: fs_makedirs_def split: if_splits dest: mkdirs_from_error)

lemma fs_read_error: "fs_read fs p = Inl e \<Longrightarrow> \<exists>s. e = OSError s"
  by (auto simp: fs_read_def split: if_splits option.splits node.splits)

lemma fs_write_error: "fs_write fs p c = Inl e \<Longrightarrow> \<exists>s. e = OSError s"
  by (auto simp: fs_write_def split: if_splits option.splits node.splits)

lemma os_makedirs_result:
  "os_makedirs p w = (w', r) \<Longrightarrow>
   (r = Inr () \<and> fs_makedirs (disk w) p = Inr (disk w') \<and>
      effects w' = effects w @ [Makedirs p] \<and> exit_hooks w' = exit_hooks w) \<or>
   (\<exists>s. r = Inl (OSError s) \<and> w' = w)"
  by (auto simp: os_makedirs_def split: sum.splits dest: fs_makedirs_error)

lemma create_checkpoint_dir_result:
  "create_checkpoint_dir p w = (w', r) \<Longrightarrow>
   (r = Inr () \<and> os_path_exists (disk w') p \<and>
      effects w' = effects w @ (if os_path_exists (disk w) p then [] else [Makedirs p]) \<and>
      exit_hooks w' = exit_hooks w \<and>
      (\<forall>pre cs n. walk (disk w) pre cs = Some n \<longrightarrow> walk (disk w') pre cs = Some n)) \<or>
   (\<exists>s. r = Inl (OSError s) \<and> w' = w)"
proof (cases "os_path_exists (disk w) p")
  case True
  assume "create_checkpoint_dir p w = (w', r)"
  with True show ?thesis by (auto simp: create_checkpoint_dir_def)
next
  case False
  assume "create_checkpoint_dir p w = (w', r)"
  with False have "os_makedirs p w = (w', r)" by (simp add: create_checkpoint_dir_def)
  from os_makedirs_result [OF this] False show ?thesis
    by (auto dest: fs_makedirs_exists fs_makedirs_mono)
qed

lemma copyfile_result:
  "copyfile src dst w = (w', r) \<Longrightarrow>
   (r = Inr () \<and> (\<exists>c. fs_read (disk w) src = Inr c \<and> fs_write (disk w) dst c = Inr (disk w')) \<and>
      effects w' = effects w @ [Copyfile src dst] \<and> exit_hooks w' = exit_hooks w) \<or>
   (\<exists>s. r = Inl (OSError s) \<and> w' = w)"
  by (auto simp: copyfile_def split: sum.splits if_splits dest: fs_read_error fs_write_error)

lemma write_summary_result:
  "write_summary env model f w = (w', r) \<Longrightarrow>
   (\<exists>m. model = Some m \<and> r = Inr () \<and> fs_write (disk w) f (summary_text env m) = Inr (disk w') \<and>
      effects w' = effects w @ [Open_w f, Write f (summary_text env m)] \<and>
      exit_hooks w' = exit_hooks w) \<or>
   (model = None \<and> r = Inl (NameError ''model'') \<and> fs_write (disk w) f [] = Inr (disk w') \<and>
      effects w' = effects w @ [Open_w f] \<and> exit_hooks w' = exit_hooks w) \<or>
   (\<exists>s. r = Inl (OSError s) \<and> w' = w)"
  by (auto simp: write_summary_def Let_def summary_text_def split: sum.splits option.splits
      dest: fs_write_error fs_write_again)

lemma create_tensorboard_dir_result:
  "create_tensorboard_dir p w = (w', r) \<Longrightarrow>
   (os_path_exists (disk w) p \<and> r = Inl tb_exists_error \<and> w' = w) \<or>
   (\<not> os_path_exists (disk w) p \<and> r = Inr () \<and> fs_makedirs (disk w) p = Inr (disk w') \<and>
      effects w' = effects w @ [Makedirs p] \<and> exit_hooks w' = exit_hooks w) \<or>
   (\<not> os_path_exists (disk w) p \<and> (\<exists>s. r = Inl (OSError s)) \<and> w' = w)"
proof (cases "os_path_exists (disk w) p")
  case True
  assume "create_tensorboard_dir p w = (w', r)"
  with True show ?thesis by (auto simp: create_tensorboard_dir_def tb_exists_error_def)
next
  case False
  assume "create_tensorboard_dir p w = (w', r)"
  with False have "os_makedirs p w = (w', r)" by (simp add: create_tensorboard_dir_def)
  from os_makedirs_result [OF this] False show ?thesis by auto
qed

text \<open>The summary file, the tensorboard directory and the config copy lie in the checkpoint directory.\<close>

lemma components_join:
  assumes rel: "take 1 b \<noteq> ''/''"
  shows "components (os_path_join d b) = components d @ components b"
proof -
  let ?P = "\<lambda>c. c \<noteq> [] \<and> c \<noteq> ''.''"
  have b: "components b = filter ?P (split_sep b)" using rel by (simp add: components_def)
  have sep: "components (x @ CHR ''/'' # b) =
      (if take 1 (x @ ''/'') = ''/'' then [''/''] else []) @ filter ?P (split_sep x) @ components b" for x
  proof -
    have root: "take 1 (x @ CHR ''/'' # b) = take 1 (x @ ''/'')" by (cases x) simp_all
    have "components (x @ CHR ''/'' # b) =
        (if take 1 (x @ CHR ''/'' # b) = ''/'' then [''/''] else []) @
        filter ?P (split_sep x @ split_sep b)"
      by (simp only: components_def split_sep_at_sep)
    then show ?thesis by (simp only: root filter_append b)
  qed
  show ?thesis
  proof (cases "d = []")
    case True
    with rel show ?thesis by (simp add: os_path_join_def components_def)
  next
    case False
    then have d: "butlast d @ [last d] = d" by simp
    show ?thesis
    proof (cases "last d = CHR ''/''")
      case True
      with d have d': "d = butlast d @ ''/''" by simp
      then have j: "os_path_join d b = butlast d @ CHR ''/'' # b"
        using rel False True by (metis append.assoc append_Cons append_Nil os_path_join_def)
      have "components d = (if take 1 (butlast d @ ''/'') = ''/'' then [''/''] else []) @
          filter ?P (split_sep (butlast d))"
        using split_sep_at_sep [of "butlast d" "[]"] d' by (simp add: components_def)
      with j sep [of "butlast d"] show ?thesis by simp
    next
      case False
      with \<open>d \<noteq> []\<close> rel have j: "os_path_join d b = d @ CHR ''/'' # b"
        by (simp add: os_path_join_def)
      have "take 1 (d @ ''/'') = take 1 d" using \<open>d \<noteq> []\<close> by (cases d) simp_all
      with j sep [of d] show ?thesis by (simp add: components_def)
    qed
  qed
qed

lemma components_name:
  "CHR ''/'' \<notin> set b \<Longrightarrow> b \<noteq> [] \<Longrightarrow> b \<noteq> ''.'' \<Longrightarrow> components b = [b]"
  by (cases b) (auto simp: components_def split_sep_no_sep)

lemma run_paths_inside:
  "components (run_summary_file env args cfg) =
     components (run_checkpoint_dir env args cfg) @ [''summary.txt'']"
  "components (run_tb_dir env args cfg) =
     components (run_checkpoint_dir env args cfg) @ [''tensorboard'']"
  "CHR ''/'' \<notin> set (make_job_name cfg args (randint_0_10 env)) \<Longrightarrow>
   components (run_config_copy env args cfg) =
     components (run_checkpoint_dir env args cfg) @
     [make_job_name cfg args (randint_0_10 env) @ ''_config.ini'']"
proof -
  show "components (run_summary_file env args cfg) =
     components (run_checkpoint_dir env args cfg) @ [''summary.txt'']"
    by (simp add: run_summary_file_def components_join) (simp add: components_def)
  show "components (run_tb_dir env args cfg) =
     components (run_checkpoint_dir env args cfg) @ [''tensorboard'']"
    by (simp add: run_tb_dir_def components_join) (simp add: components_def)
  assume n: "CHR ''/'' \<notin> set (make_job_name cfg args (randint_0_10 env))"
  let ?b = "make_job_name cfg args (randint_0_10 env) @ ''_config.ini''"
  from n have s: "CHR ''/'' \<notin> set ?b" by simp
  have ne: "?b \<noteq> []" "?b \<noteq> ''.''" by (simp_all add: append_eq_Cons_conv)
  from s ne have c: "components ?b = [?b]" by (rule components_name)
  from s ne(1) have "take 1 ?b \<noteq> ''/''" by (cases ?b) auto
  then have "components (os_path_join (run_checkpoint_dir env args cfg) ?b) =
      components (run_checkpoint_dir env args cfg) @ components ?b"
    by (rule components_join)
  with c show "components (run_config_copy env args cfg) =
     components (run_checkpoint_dir env args cfg) @ [?b]"
    by (simp only: run_config_copy_def)
qed

subsection \<open>The run director, case by case\<close>

lemma fs_write_walk_leaf:
  assumes h: "fs_write fs p c = Inr fs'"
  shows "walk fs' [] (components p) = Some (File c)"
  using fs_write_read [OF h] by (simp add: fs_read_walk)

lemma fs_write_exists:
  assumes h: "fs_write fs q c = Inr fs'" and e: "os_path_exists fs p"
  shows "os_path_exists fs' p"
proof -
  from e obtain n where p: "p \<noteq> []" and w: "walk fs [] (components p) = Some n"
    and f: "n \<noteq> Dir \<longrightarrow> \<not> names_dir_only p"
    by (auto simp: os_path_exists_def stat_def split: if_splits option.splits node.splits)
  show ?thesis
  proof (cases n)
    case Dir
    with w h have "walk fs' [] (components p) = Some Dir" by (auto intro: fs_write_dirs)
    with p show ?thesis by (simp add: os_path_exists_def stat_def)
  next
    case (File x)
    with f have nd: "\<not> names_dir_only p" by simp
    have "\<exists>y. walk fs' [] (components p) = Some (File y)"
    proof (cases "components p = components q")
      case True
      with fs_write_walk_leaf [OF h] show ?thesis by simp
    next
      case False
      from h have eq: "fs' = fs(components q \<mapsto> File c)"
        and d: "node_at fs (components q) \<noteq> Some Dir"
        using fs_write_eq [of fs q c fs'] by auto
      from d False w File have "walk (fs(components q \<mapsto> File c)) [] (components p) = Some (File x)"
        by (intro write_walk_other) auto
      with eq show ?thesis by simp
    qed
    with p nd show ?thesis by (auto simp: os_path_exists_def stat_def)
  qed
qed

lemma fs_makedirs_keeps_exists:
  "fs_makedirs fs q = Inr fs' \<Longrightarrow> os_path_exists fs p \<Longrightarrow> os_path_exists fs' p"
proof -
  assume m: "fs_makedirs fs q = Inr fs'" and e: "os_path_exists fs p"
  show ?thesis
    by (rule os_path_exists_walk [OF e]) (rule fs_makedirs_mono [OF m])
qed

lemma fs_makedirs_keeps_read:
  "fs_makedirs fs q = Inr fs' \<Longrightarrow> fs_read fs p = Inr c \<Longrightarrow> fs_read fs' p = Inr c"
  by (auto simp: fs_read_walk dest: fs_makedirs_mono)

lemma then_step_Inl [simp]: "then_step (w, Inl e) f = (w, Inl e)"
  by (simp add: then_step_def)

lemma then_step_Inr [simp]: "then_step (w, Inr x) f = f x w"
  by (simp add: then_step_def)

lemma register_del_logs_result:
  "register_del_logs args p w =
     (w\<lparr>exit_hooks := exit_hooks w @ (if debug args then [p] else [])\<rparr>, Inr ())"
  by (simp add: register_del_logs_def)

lemma run_director_unfold:
  "run_director env args cfg model w0 =
     then_step (create_checkpoint_dir (run_checkpoint_dir env args cfg) w0) (\<lambda>_ w.
     then_step (register_del_logs args (run_checkpoint_dir env args cfg) w) (\<lambda>_ w.
     then_step (copyfile (config args) (run_config_copy env args cfg) w) (\<lambda>_ w.
     then_step (write_summary env model (run_summary_file env args cfg) w) (\<lambda>_ w.
     then_step (create_tensorboard_dir (run_tb_dir env args cfg) w) (\<lambda>_ w.
     (w, Inr (ModelCheckpoint (os_path_join (run_checkpoint_dir env args cfg) checkpoint_name),
              TensorBoard (run_tb_dir env args cfg))))))))"
  by (simp add: run_director_def Let_def run_checkpoint_dir_def run_config_copy_def
      run_summary_file_def run_tb_dir_def make_checkpoint_dir_def)


text \<open>Every way \<open>run_director\<close> can end, with what it has done by then.\<close>

lemma run_director_cases [consumes 1, case_names ckpt_failed copy_failed summary_failed
    model_unbound run_exists tb_failed finished]:
  fixes env args cfg w0
  defines "ckpt \<equiv> run_checkpoint_dir env args cfg"
    and "copy \<equiv> run_config_copy env args cfg"
    and "summ \<equiv> run_summary_file env args cfg"
    and "tb \<equiv> run_tb_dir env args cfg"
  defines "first \<equiv> (if os_path_exists (disk w0) ckpt then [] else [Makedirs ckpt])"
    and "d1 \<equiv> disk (fst (create_checkpoint_dir ckpt w0))"
  assumes run: "run_director env args cfg model w0 = (w, r)"
  obtains
    (ckpt_failed) s where "r = Inl (OSError s)" "w = w0"
  | (copy_failed) s where "r = Inl (OSError s)" "effects w = effects w0 @ first"
      "os_path_exists (disk w) ckpt"
  | (summary_failed) s c where "r = Inl (OSError s)"
      "effects w = effects w0 @ first @ [Copyfile (config args) copy]"
      "os_path_exists (disk w) ckpt"
      "fs_read d1 (config args) = Inr c" "fs_read (disk w) copy = Inr c"
  | (model_unbound) c where "model = None" "r = Inl (NameError ''model'')"
      "effects w = effects w0 @ first @ [Copyfile (config args) copy, Open_w summ]"
      "os_path_exists (disk w) ckpt"
      "fs_read d1 (config args) = Inr c" "fs_read (disk w) copy = Inr c"
      "fs_read (disk w) summ = Inr []"
  | (run_exists) m c where "model = Some m" "r = Inl tb_exists_error"
      "effects w = effects w0 @ first @
         [Copyfile (config args) copy, Open_w summ, Write summ (summary_text env m)]"
      "os_path_exists (disk w) ckpt"
      "fs_read d1 (config args) = Inr c" "fs_read (disk w) copy = Inr c"
      "fs_read (disk w) summ = Inr (summary_text env m)"
      "os_path_exists (disk w) tb"
  | (tb_failed) m s where "model = Some m" "r = Inl (OSError s)"
      "effects w = effects w0 @ first @
         [Copyfile (config args) copy, Open_w summ, Write summ (summary_text env m)]"
      "\<not> os_path_exists (disk w0) tb"
  | (finished) m c where "model = Some m"
      "r = Inr (ModelCheckpoint (os_path_join ckpt checkpoint_name), TensorBoard tb)"
      "effects w = effects w0 @ first @
         [Copyfile (config args) copy, Open_w summ, Write summ (summary_text env m), Makedirs tb]"
      "os_path_exists (disk w) ckpt"
      "fs_read d1 (config args) = Inr c" "fs_read (disk w) copy = Inr c"
      "fs_read (disk w) summ = Inr (summary_text env m)"
      "\<not> os_path_exists (disk w0) tb" "os_path_exists (disk w) tb"
proof -
  note unf = run_director_unfold [of env args cfg model w0, folded ckpt_def copy_def summ_def tb_def]
  have tbd: "names_dir_only tb"
    by (simp add: tb_def run_tb_dir_def tb_dir_names_dir)
  have ne: "components copy \<noteq> components summ"
    by (simp add: copy_def summ_def run_config_copy_def run_summary_file_def config_copy_not_summary)
  obtain w1 r1 where s1: "create_checkpoint_dir ckpt w0 = (w1, r1)"
    by (cases "create_checkpoint_dir ckpt w0")
  then have d1: "d1 = disk w1" by (simp add: d1_def)
  from create_checkpoint_dir_result [OF s1]
  consider (bad) s where "r1 = Inl (OSError s)" "w1 = w0"
    | (ok) "r1 = Inr ()" "os_path_exists (disk w1) ckpt" "effects w1 = effects w0 @ first"
        "\<And>pre cs. walk (disk w0) pre cs = Some Dir \<Longrightarrow> walk (disk w1) pre cs = Some Dir"
    by (auto simp: first_def)
  then show thesis
  proof cases
    case bad
    with run s1 unf have "r = Inl (OSError s)" "w = w0" by simp_all
    then show thesis by (rule ckpt_failed)
  next
    case ok
    define w2 where "w2 = w1\<lparr>exit_hooks := exit_hooks w1 @ (if debug args then [ckpt] else [])\<rparr>"
    have d2: "disk w2 = disk w1" and e2: "effects w2 = effects w1" by (simp_all add: w2_def)
    obtain w3 r3 where s3: "copyfile (config args) copy w2 = (w3, r3)"
      by (cases "copyfile (config args) copy w2")
    from run s1 ok(1) s3 unf
    have run3: "(w, r) = then_step (w3, r3) (\<lambda>_ w.
        then_step (write_summary env model summ w) (\<lambda>_ w.
        then_step (create_tensorboard_dir tb w) (\<lambda>_ w.
        (w, Inr (ModelCheckpoint (os_path_join ckpt checkpoint_name), TensorBoard tb)))))"
      by (simp add: register_del_logs_result w2_def)
    from copyfile_result [OF s3]
    consider (bad3) s where "r3 = Inl (OSError s)" "w3 = w2"
      | (ok3) c where "r3 = Inr ()" "fs_read (disk w2) (config args) = Inr c"
          "fs_write (disk w2) copy c = Inr (disk w3)"
          "effects w3 = effects w2 @ [Copyfile (config args) copy]"
      by auto
    then show thesis
    proof cases
      case bad3
      with run3 have "r = Inl (OSError s)" "w = w2" by simp_all
      with ok d2 e2 show thesis by (intro copy_failed [of s]) simp_all
    next
      case ok3
      from ok3(2) d1 d2 have src: "fs_read d1 (config args) = Inr c" by simp
      from ok3(3) have cp3: "fs_read (disk w3) copy = Inr c" by (rule fs_write_read)
      from ok3(3) ok(2) d2 have ck3: "os_path_exists (disk w3) ckpt" by (auto intro: fs_write_exists)
      from ok3(4) e2 ok(3) have ef3: "effects w3 = effects w0 @ first @ [Copyfile (config args) copy]"
        by simp
      have dir3: "walk (disk w3) pre cs = Some Dir" if "walk (disk w0) pre cs = Some Dir" for pre cs
        using that ok(4) d2 ok3(3) by (auto intro: fs_write_dirs)
      obtain w4 r4 where s4: "write_summary env model summ w3 = (w4, r4)"
        by (cases "write_summary env model summ w3")
      from run3 ok3(1) s4
      have run4: "(w, r) = then_step (w4, r4) (\<lambda>_ w.
          then_step (create_tensorboard_dir tb w) (\<lambda>_ w.
          (w, Inr (ModelCheckpoint (os_path_join ckpt checkpoint_name), TensorBoard tb))))"
        by simp
      from write_summary_result [OF s4]
      consider (bad4) s where "r4 = Inl (OSError s)" "w4 = w3"
        | (unbound) "model = None" "r4 = Inl (NameError ''model'')"
            "fs_write (disk w3) summ [] = Inr (disk w4)" "effects w4 = effects w3 @ [Open_w summ]"
        | (ok4) m where "model = Some m" "r4 = Inr ()"
            "fs_write (disk w3) summ (summary_text env m) = Inr (disk w4)"
            "effects w4 = effects w3 @ [Open_w summ, Write summ (summary_text env m)]"
        by auto
      then show thesis
      proof cases
        case bad4
        with run4 have "r = Inl (OSError s)" "w = w3" by simp_all
        with ef3 ck3 src cp3 show thesis by (intro summary_failed [of s c]) simp_all
      next
        case unbound
        with run4 have wr: "r = Inl (NameError ''model'')" "w = w4" by simp_all
        from unbound(3) ne cp3 have "fs_read (disk w4) copy = Inr c" by (rule fs_write_read_other)
        moreover from unbound(3) have "fs_read (disk w4) summ = Inr []" by (rule fs_write_read)
        moreover from unbound(3) ck3 have "os_path_exists (disk w4) ckpt" by (rule fs_write_exists)
        ultimately show thesis
          using wr unbound(1,4) ef3 src by (intro model_unbound [of c]) simp_all
      next
        case ok4
        from ok4(3) ne cp3 have cp4: "fs_read (disk w4) copy = Inr c" by (rule fs_write_read_other)
        from ok4(3) have su4: "fs_read (disk w4) summ = Inr (summary_text env m)" by (rule fs_write_read)
        from ok4(3) ck3 have ck4: "os_path_exists (disk w4) ckpt" by (rule fs_write_exists)
        from ok4(4) ef3 have ef4: "effects w4 = effects w0 @ first @
            [Copyfile (config args) copy, Open_w summ, Write summ (summary_text env m)]"
          by simp
        have tb0: "os_path_exists (disk w4) tb" if "os_path_exists (disk w0) tb"
        proof -
          from that tbd have "tb \<noteq> []" "walk (disk w0) [] (components tb) = Some Dir"
            by (simp_all add: stat_dir_only)
          then have "walk (disk w4) [] (components tb) = Some Dir"
            using dir3 ok4(3) by (auto intro: fs_write_dirs)
          with \<open>tb \<noteq> []\<close> tbd show ?thesis by (simp add: stat_dir_only)
        qed
        obtain w5 r5 where s5: "create_tensorboard_dir tb w4 = (w5, r5)"
          by (cases "create_tensorboard_dir tb w4")
        from run4 ok4(2) s5
        have run5: "(w, r) = then_step (w5, r5) (\<lambda>_ w.
            (w, Inr (ModelCheckpoint (os_path_join ckpt checkpoint_name), TensorBoard tb)))"
          by simp
        from create_tensorboard_dir_result [OF s5]
        consider (exists) "os_path_exists (disk w4) tb" "r5 = Inl tb_exists_error" "w5 = w4"
          | (bad5) s where "\<not> os_path_exists (disk w4) tb" "r5 = Inl (OSError s)" "w5 = w4"
          | (ok5) "\<not> os_path_exists (disk w4) tb" "r5 = Inr ()"
              "fs_makedirs (disk w4) tb = Inr (disk w5)" "effects w5 = effects w4 @ [Makedirs tb]"
          by auto
        then show thesis
        proof cases
          case exists
          with run5 have "r = Inl tb_exists_error" "w = w4" by simp_all
          with ok4(1) ef4 ck4 src cp4 su4 exists(1) show thesis
            by (intro run_exists [of m c]) simp_all
        next
          case bad5
          with run5 have "r = Inl (OSError s)" "w = w4" by simp_all
          moreover from bad5(1) tb0 have "\<not> os_path_exists (disk w0) tb" by blast
          ultimately show thesis
            using ok4(1) ef4 by (intro tb_failed [of m s]) simp_all
        next
          case ok5
          with run5 have wr: "w = w5"
            "r = Inr (ModelCheckpoint (os_path_join ckpt checkpoint_name), TensorBoard tb)"
            by simp_all
          from ok5(1) tb0 have "\<not> os_path_exists (disk w0) tb" by blast
          moreover from ok5(3) have "os_path_exists (disk w5) tb" by (rule fs_makedirs_exists)
          moreover from ok5(3) ck4 have "os_path_exists (disk w5) ckpt"
            by (rule fs_makedirs_keeps_exists)
          moreover from ok5(3) cp4 have "fs_read (disk w5) copy = Inr c"
            by (rule fs_makedirs_keeps_read)
          moreover from ok5(3) su4 have "fs_read (disk w5) summ = Inr (summary_text env m)"
            by (rule fs_makedirs_keeps_read)
          ultimately show thesis
            using wr ok4(1) ok5(4) ef4 src by (intro finished [of m c]) simp_all
        qed
      qed
    qed
  qed
qed

subsection \<open>Integer division through a double\<close>

lemma bit_length_upper: "n < 2 ^ bit_length n"
proof (induction n rule: bit_length.induct)
  case (1 n)
  show ?case
  proof (cases "n = 0")
    case True
    then show ?thesis by (simp add: bit_length.simps)
  next
    case False
    with 1 have "n div 2 < 2 ^ bit_length (n div 2)" by simp
    then have "n < 2 * 2 ^ bit_length (n div 2)" by arith
    with False show ?thesis by (subst bit_length.simps) simp
  qed
qed

lemma bit_length_lower: "0 < n \<Longrightarrow> 2 ^ (bit_length n - 1) \<le> n"
proof (induction n rule: bit_length.induct)
  case (1 n)
  show ?case
  proof (cases "n div 2 = 0")
    case True
    with 1(2) have "n = 1" by arith
    then show ?thesis by (simp add: bit_length.simps)
  next
    case False
    with 1 have ih: "2 ^ (bit_length (n div 2) - 1) \<le> n div 2" by simp
    from False have pos: "0 < bit_length (n div 2)" by (subst bit_length.simps) simp
    have "bit_length n = Suc (bit_length (n div 2))" using 1(2) by (subst bit_length.simps) simp
    then have "2 ^ (bit_length n - 1) = 2 * 2 ^ (bit_length (n div 2) - 1)"
      using pos by (cases "bit_length (n div 2)") simp_all
    also have "\<dots> \<le> 2 * (n div 2)" using ih by simp
    also have "\<dots> \<le> n" by simp
    finally show ?thesis .
  qed
qed

text \<open>The exponent found is not above the quotient: \<open>2 ^ k \<le> a / b\<close>.\<close>

lemma floor_log2_quot_lower:
  assumes a: "0 < a" and b: "0 < b"
  shows "if 0 \<le> floor_log2_quot a b then b * 2 ^ nat (floor_log2_quot a b) \<le> a
         else b \<le> a * 2 ^ nat (- floor_log2_quot a b)"
proof -
  define la lb where "la = bit_length a" and "lb = bit_length b"
  define k where "k = int la - int lb"
  have la: "2 ^ (la - 1) \<le> a" unfolding la_def using a by (rule bit_length_lower)
  have lb: "b < 2 ^ lb" unfolding lb_def by (rule bit_length_upper)
  have la_pos: "0 < la" using a by (subst la_def, subst bit_length.simps) simp
  let ?c = "if 0 \<le> k then b * 2 ^ nat k \<le> a else b \<le> a * 2 ^ nat (- k)"
  have fl: "floor_log2_quot a b = (if ?c then k else k - 1)"
    by (simp add: floor_log2_quot_def Let_def k_def la_def lb_def)
  show ?thesis
  proof (cases ?c)
    case True
    with fl show ?thesis by (auto split: if_splits)
  next
    case False
    with fl have f: "floor_log2_quot a b = k - 1" by simp
    show ?thesis
    proof (cases "0 \<le> k - 1")
      case True
      then have n: "nat (k - 1) + lb = la - 1" using la_pos by (simp add: k_def)
      have "b * 2 ^ nat (k - 1) \<le> 2 ^ lb * 2 ^ nat (k - 1)" using lb by simp
      also have "\<dots> = 2 ^ (la - 1)" using n by (simp add: power_add [symmetric] add.commute)
      also have "\<dots> \<le> a" by (rule la)
      finally show ?thesis using f True by simp
    next
      case False
      then have n: "la - 1 + nat (- (k - 1)) = lb" using la_pos by (simp add: k_def)
      have "b \<le> 2 ^ lb" using lb by simp
      also have "\<dots> = 2 ^ (la - 1) * 2 ^ nat (- (k - 1))" using n by (simp add: power_add [symmetric])
      also have "\<dots> \<le> a * 2 ^ nat (- (k - 1))" using la by simp
      finally show ?thesis using f False by simp
    qed
  qed
qed

lemma round_half_even_div_cases:
  "round_half_even_div n d = n div d \<or>
   (round_half_even_div n d = n div d + 1 \<and> d \<le> 2 * (n mod d))"
  by (auto simp: round_half_even_div_def Let_def)

text \<open>
  Rounding a quotient at \<open>k\<close> binary places does not reach the next integer while the
  divisor is below \<open>2 ^ (k + 1)\<close>.
\<close>

lemma round_then_truncate:
  assumes b: "0 < b" and small: "b < 2 ^ (k + 1)"
  shows "round_half_even_div (a * 2 ^ k) b div 2 ^ k = a div b"
proof -
  define n where "n = a div b"
  define N where "N = a * 2 ^ k"
  define m where "m = round_half_even_div N b"
  have nb: "n * b \<le> a" by (simp add: n_def)
  have a1: "a + 1 \<le> (n + 1) * b"
    using b unfolding n_def by (metis Suc_eq_plus1 Suc_leI dividend_less_div_times mult.commute mult_Suc)
  have lo: "n * 2 ^ k \<le> N div b"
  proof -
    have "n * 2 ^ k * b = n * b * 2 ^ k" by (simp add: mult_ac)
    also have "\<dots> \<le> N" using nb by (simp add: N_def)
    finally show ?thesis using b by (simp add: less_eq_div_iff_mult_less_eq)
  qed
  have N1: "N + 2 ^ k \<le> (n + 1) * 2 ^ k * b"
  proof -
    have "N + 2 ^ k = (a + 1) * 2 ^ k" by (simp add: N_def algebra_simps)
    also have "\<dots> \<le> (n + 1) * b * 2 ^ k" using a1 by (rule mult_le_mono1)
    also have "\<dots> = (n + 1) * 2 ^ k * b" by (simp only: mult_ac)
    finally show ?thesis .
  qed
  have hi: "m < (n + 1) * 2 ^ k"
  proof (rule ccontr)
    assume "\<not> m < (n + 1) * 2 ^ k"
    then have ge: "(n + 1) * 2 ^ k \<le> m" by simp
    have q: "N div b < (n + 1) * 2 ^ k"
    proof -
      have "N < (n + 1) * 2 ^ k * b" using N1 by (simp add: less_le_trans [of N "N + 2 ^ k"])
      then show ?thesis using b by (simp add: div_less_iff_less_mult)
    qed
    from round_half_even_div_cases [of N b] ge q
    have up: "m = N div b + 1" and half: "b \<le> 2 * (N mod b)" by (auto simp: m_def)
    from up ge q have eq: "N div b + 1 = (n + 1) * 2 ^ k" by simp
    have "N = (N div b) * b + N mod b" by simp
    then have "N + b = (N div b + 1) * b + N mod b" by (simp add: algebra_simps)
    with eq have "N + b = (n + 1) * 2 ^ k * b + N mod b" by simp
    with N1 have "N mod b + 2 ^ k \<le> b" by arith
    with half have "2 ^ (k + 1) \<le> b" by simp
    with small show False by simp
  qed
  have "m div 2 ^ k = n"
  proof (rule div_nat_eqI)
    show "2 ^ k * n \<le> m"
      using lo round_half_even_div_cases [of N b] by (auto simp: m_def mult.commute)
    show "m < 2 ^ k * Suc n" using hi by (simp add: mult.commute)
  qed
  then show ?thesis by (simp add: m_def N_def n_def)
qed


text \<open>Below the smallest normal double the quotient of a dividend under \<open>2 ^ 53\<close> truncates to zero.\<close>

lemma round_tiny:
  assumes a: "a < 2 ^ 53" and b: "2 ^ 1075 \<le> b"
  shows "round_half_even_div (a * 2 ^ 1074) b div 2 ^ 1074 = a div b"
proof -
  have bpos: "0 < b" using b by (rule less_le_trans [rotated]) simp
  have "a * 2 ^ 1074 < 2 ^ 53 * 2 ^ 1074" using a by simp
  also have "\<dots> = (2 ^ 52 :: nat) * 2 ^ 1075" by (simp add: power_add [symmetric])
  also have "\<dots> \<le> 2 ^ 52 * b" using b by simp
  finally have "a * 2 ^ 1074 div b < 2 ^ 52" using bpos by (simp add: div_less_iff_less_mult)
  with round_half_even_div_cases [of "a * 2 ^ 1074" b]
  have "round_half_even_div (a * 2 ^ 1074) b \<le> 2 ^ 52" by auto
  also have "(2 ^ 52 :: nat) < 2 ^ 1074" by simp
  finally have "round_half_even_div (a * 2 ^ 1074) b div 2 ^ 1074 = 0" by simp
  moreover have "a < b" using a b by (rule_tac less_le_trans [of a "2 ^ 53"]) (simp_all add: order_trans [of "2 ^ 53" "2 ^ 1075"])
  ultimately show ?thesis by simp
qed

lemma truediv_nat_truncates:
  assumes a: "0 < a" "a < 2 ^ 53" and b: "0 < b"
  obtains m e where "truediv_nat a b = (m, e)" "e \<le> 0" "m div 2 ^ nat (- e) = a div b"
proof -
  define lg where "lg = floor_log2_quot a b"
  define e where "e = max (lg - 52) (- 1074)"
  define k where "k = nat (- e)"
  define m where "m = round_half_even_div (a * 2 ^ k) b"
  have low: "if 0 \<le> lg then b * 2 ^ nat lg \<le> a else b \<le> a * 2 ^ nat (- lg)"
    unfolding lg_def using a(1) b by (rule floor_log2_quot_lower)
  have lg52: "lg \<le> 52"
  proof (rule ccontr)
    assume "\<not> lg \<le> 52"
    then have big: "53 \<le> nat lg" and "0 \<le> lg" by simp_all
    with low have "b * 2 ^ nat lg \<le> a" by simp
    moreover have "(2::nat) ^ 53 \<le> 2 ^ nat lg" using big by (intro power_increasing) simp_all
    moreover have "(2::nat) ^ nat lg \<le> b * 2 ^ nat lg" using b by simp
    ultimately show False using a(2) by simp
  qed
  then have e0: "e \<le> 0" by (simp add: e_def)
  have td: "truediv_nat a b = (m, e)"
  proof (cases "e = 0")
    case True
    then show ?thesis
      by (simp add: truediv_nat_def Let_def lg_def [symmetric] e_def [symmetric] m_def k_def)
  next
    case False
    with e0 have "e < 0" by simp
    then show ?thesis
      by (simp add: truediv_nat_def Let_def lg_def [symmetric] e_def [symmetric] m_def k_def)
  qed
  have "m div 2 ^ k = a div b"
  proof (cases "b < 2 ^ (k + 1)")
    case True
    with b show ?thesis unfolding m_def by (rule round_then_truncate)
  next
    case False
    have "e = - 1074"
    proof (rule ccontr)
      assume "e \<noteq> - 1074"
      then have e: "e = lg - 52" by (simp add: e_def max_def split: if_splits)
      with lg52 have k: "k + 1 = nat (53 - lg)" by (simp add: k_def)
      have "b < 2 ^ nat (53 - lg)"
      proof (cases "0 \<le> lg")
        case True
        with low have "b * 2 ^ nat lg \<le> a" by simp
        also have "a < 2 ^ 53" by (rule a(2))
        also have "(2::nat) ^ 53 = 2 ^ nat (53 - lg) * 2 ^ nat lg"
          using True lg52 by (simp add: power_add [symmetric] nat_add_distrib [symmetric])
        finally show ?thesis by simp
      next
        case False
        with low have "b \<le> a * 2 ^ nat (- lg)" by simp
        also have "\<dots> < 2 ^ 53 * 2 ^ nat (- lg)" using a(2) by simp
        also have "\<dots> = 2 ^ (53 + nat (- lg))" by (simp only: power_add)
        also have "53 + nat (- lg) = nat (53 - lg)" using False by simp
        finally show ?thesis .
      qed
      with k \<open>\<not> b < 2 ^ (k + 1)\<close> show False by simp
    qed
    then have k: "k = 1074" by (simp add: k_def)
    with False have "2 ^ 1075 \<le> b" by simp
    with a(2) show ?thesis unfolding m_def k by (rule round_tiny)
  qed
  with td e0 show thesis by (intro that [of m e]) (simp_all add: k_def)
qed

lemma py_int_truediv:
  assumes a: "0 \<le> a" "a < 2 ^ 53" and b: "0 < b"
  shows "\<exists>x. py_truediv a b = Inr x \<and> py_int x = a div b"
proof (cases "a = 0")
  case True
  with b show ?thesis by (simp add: py_truediv_def)
next
  case False
  with a have pos: "0 < nat a" "nat a < 2 ^ 53" by simp_all
  from b have bpos: "0 < nat b" by simp
  from pos bpos obtain m e where td: "truediv_nat (nat a) (nat b) = (m, e)" and e0: "e \<le> 0"
    and tr: "m div 2 ^ nat (- e) = nat a div nat b"
    by (rule truediv_nat_truncates)
  have quot: "int (nat a div nat b) = a div b" using a b by (simp add: zdiv_int)
  have small: "\<not> (0 \<le> e \<and> 2 ^ 1024 \<le> m * 2 ^ nat e)"
  proof
    assume h: "0 \<le> e \<and> 2 ^ 1024 \<le> m * 2 ^ nat e"
    with e0 have "e = 0" by simp
    with tr have "m = nat a div nat b" by simp
    then have "m \<le> nat a" by simp
    with pos(2) have "m < 2 ^ 53" by simp
    moreover from h \<open>e = 0\<close> have "2 ^ 1024 \<le> m" by simp
    ultimately show False using power_increasing [of 53 1024 "2::nat"] by simp
  qed
  have sg: "sgn a * sgn b * int m = int m" using False a b by (simp add: sgn_if)
  from False b td small sg a
  have res: "py_truediv a b = Inr (Float (int m) e)"
    by (simp add: py_truediv_def)
  have "py_int (Float (int m) e) = int (m div 2 ^ nat (- e))"
  proof (cases "e = 0")
    case True
    then show ?thesis by simp
  next
    case False
    with e0 have "e < 0" by simp
    then show ?thesis by (simp add: sgn_if zdiv_int)
  qed
  with tr quot res show ?thesis by simp
qed

subsection \<open>Evaluating a concrete run\<close>

lemmas run_eval =
  run_director_def Let_def make_dir_path_def make_job_name_def os_path_join_def
  components_def create_checkpoint_dir_def os_path_exists_def stat_def names_dir_only_def
  node_at_def register_del_logs_def copyfile_def fs_read_def fs_write_def write_summary_def
  create_tensorboard_dir_def os_makedirs_def fs_makedirs_def checkpoint_name_def

lemma ex_run1:
  "run_director example_env example_args example_config (Some m) example_world_rerun =
     (\<lparr>disk = example_disk_rerun
          ([''/'', ''train'', ''loss_comparison_runs'', ''run1*trial1'', ''run1*trial1_config.ini'']
             \<mapsto> File ''[DATA]'',
           [''/'', ''train'', ''loss_comparison_runs'', ''run1*trial1'', ''summary.txt'']
             \<mapsto> File (summary_text example_env m)),
        effects =
          [Copyfile ''/configs/run1.ini''
             ''/train/loss_comparison_runs/run1*trial1/run1*trial1_config.ini'',
           Open_w ''/train/loss_comparison_runs/run1*trial1/summary.txt'',
           Write ''/train/loss_comparison_runs/run1*trial1/summary.txt'' (summary_text example_env m)],
        exit_hooks = []\<rparr>,
      Inl tb_exists_error)"
  by (simp add: run_eval example_env_def example_args_def example_config_def
      example_world_rerun_def example_disk_rerun_def example_disk_def tb_exists_error_def)

lemma ex_run0:
  "run_director example_env example_args example_config model example_world =
     (case model of
        None \<Rightarrow>
          (\<lparr>disk = example_disk
               ([''/'', ''train'', ''loss_comparison_runs''] \<mapsto> Dir,
                [''/'', ''train'', ''loss_comparison_runs'', ''run1*trial1''] \<mapsto> Dir,
                [''/'', ''train'', ''loss_comparison_runs'', ''run1*trial1'', ''run1*trial1_config.ini'']
                  \<mapsto> File ''[DATA]'',
                [''/'', ''train'', ''loss_comparison_runs'', ''run1*trial1'', ''summary.txt'']
                  \<mapsto> File []),
             effects =
               [Makedirs ''/train/loss_comparison_runs/run1*trial1'',
                Copyfile ''/configs/run1.ini''
                  ''/train/loss_comparison_runs/run1*trial1/run1*trial1_config.ini'',
                Open_w ''/train/loss_comparison_runs/run1*trial1/summary.txt''],
             exit_hooks = []\<rparr>,
           Inl (NameError ''model''))
      | Some m \<Rightarrow>
          (\<lparr>disk = example_disk
               ([''/'', ''train'', ''loss_comparison_runs''] \<mapsto> Dir,
                [''/'', ''train'', ''loss_comparison_runs'', ''run1*trial1''] \<mapsto> Dir,
                [''/'', ''train'', ''loss_comparison_runs'', ''run1*trial1'', ''run1*trial1_config.ini'']
                  \<mapsto> File ''[DATA]'',
                [''/'', ''train'', ''loss_comparison_runs'', ''run1*trial1'', ''summary.txt'']
                  \<mapsto> File (summary_text example_env m),
                [''/'', ''train'', ''loss_comparison_runs'', ''run1*trial1'', ''tensorboard'']
                  \<mapsto> Dir),
             effects =
               [Makedirs ''/train/loss_comparison_runs/run1*trial1'',
                Copyfile ''/configs/run1.ini''
                  ''/train/loss_comparison_runs/run1*trial1/run1*trial1_config.ini'',
                Open_w ''/train/loss_comparison_runs/run1*trial1/summary.txt'',
                Write ''/train/loss_comparison_runs/run1*trial1/summary.txt''
                  (summary_text example_env m),
                Makedirs ''/train/loss_comparison_runs/run1*trial1/tensorboard/''],
             exit_hooks = []\<rparr>,
           Inr (ModelCheckpoint ''/train/loss_comparison_runs/run1*trial1/cp-{epoch:04d}.ckpt'',
                TensorBoard ''/train/loss_comparison_runs/run1*trial1/tensorboard/'')))"
  by (cases model)
     (simp_all add: run_eval example_env_def example_args_def example_config_def
      example_world_def example_disk_def)

lemma ex_paths:
  "run_checkpoint_dir example_env example_args example_config =
     ''/train/loss_comparison_runs/run1*trial1''"
  "run_config_copy example_env example_args example_config =
     ''/train/loss_comparison_runs/run1*trial1/run1*trial1_config.ini''"
  "run_summary_file example_env example_args example_config =
     ''/train/loss_comparison_runs/run1*trial1/summary.txt''"
  "run_tb_dir example_env example_args example_config =
     ''/train/loss_comparison_runs/run1*trial1/tensorboard/''"
  by (simp_all add: run_checkpoint_dir_def run_config_copy_def run_summary_file_def run_tb_dir_def
      make_checkpoint_dir_def make_dir_path_def make_job_name_def os_path_join_def
      example_env_def example_args_def example_config_def)


lemma fit_sizing_value:
  assumes "\<not> debug args" "shape_at img_train 0 = Inr n0" "n0 < 2 ^ 53" "0 < batch_size cfg"
  shows "fit_sizing args cfg img_train = Inr (num_epochs cfg, int n0 div batch_size cfg, 8)"
proof -
  have "int n0 < 2 ^ 53" using assms(3) by (metis of_nat_less_iff of_nat_numeral of_nat_power)
  with assms(4) obtain x where "py_truediv (int n0) (batch_size cfg) = Inr x"
    "py_int x = int n0 div batch_size cfg"
    using py_int_truediv [of "int n0" "batch_size cfg"] by auto
  with assms(1,2) show ?thesis by (simp add: fit_sizing_def)
qed

text \<open>What a run that reaches \<^verbatim>\<open>fit_generator\<close> has gone through.\<close>

lemma run_Inr:
  assumes "run env args cfg w0 = (w, Inr fc)"
  obtains img_train img_val n m used
  where "load_dataset env cfg = Some (img_train, img_val)"
    "shape_at img_train 1 = Inr n"
    "pick_architecture cfg n = Some m"
    "run_director env args cfg (Some m) w0 =
       (w, Inr (ModelCheckpoint (os_path_join (run_checkpoint_dir env args cfg) checkpoint_name),
                TensorBoard (run_tb_dir env args cfg)))"
    "select_loss cfg = Inr used"
    "setup_model cfg (Some m) used = Inr (fit_model fc, fit_compiled fc)"
    "fit_sizing args cfg img_train = Inr (epochs fc, steps_per_epoch fc, validation_steps fc)"
proof -
  from assms obtain img_train img_val where ld: "load_dataset env cfg = Some (img_train, img_val)"
    by (cases "load_dataset env cfg") (auto simp: run_def make_generators_def)
  define tg where "tg = generate_data img_train (task cfg) (input_domain cfg) (output_domain cfg)
    (corruption_frac cfg) (batch_size cfg) ''train''"
  define vg where "vg = generate_data img_val (task cfg) (input_domain cfg) (output_domain cfg)
    (corruption_frac cfg) (batch_size cfg) ''val''"
  from ld have mg: "make_generators cfg (load_dataset env cfg) = Inr (img_train, tg, vg)"
    by (simp add: make_generators_def tg_def vg_def)
  from assms mg obtain n where sh: "shape_at img_train 1 = Inr n"
    by (cases "shape_at img_train 1") (auto simp: run_def)
  obtain w1 r1 where rd: "run_director env args cfg (pick_architecture cfg n) w0 = (w1, r1)"
    by (cases "run_director env args cfg (pick_architecture cfg n) w0")
  from assms mg sh rd obtain cb where r1: "r1 = Inr cb"
    by (cases r1) (auto simp: run_def)
  from rd r1 obtain m where m: "pick_architecture cfg n = Some m"
    and cb: "cb = (ModelCheckpoint (os_path_join (run_checkpoint_dir env args cfg) checkpoint_name),
                   TensorBoard (run_tb_dir env args cfg))"
    by (cases rule: run_director_cases) auto
  from assms mg sh rd r1 cb obtain used where sl: "select_loss cfg = Inr used"
    by (cases "select_loss cfg") (auto simp: run_def)
  from assms mg sh rd r1 cb sl m obtain cc where sm: "setup_model cfg (Some m) used = Inr (m, cc)"
    by (cases "setup_model cfg (Some m) used") (auto simp: run_def setup_model_def)
  from assms mg sh rd r1 cb sl m sm obtain ne st vs where fz: "fit_sizing args cfg img_train = Inr (ne, st, vs)"
    by (cases "fit_sizing args cfg img_train") (auto simp: run_def)
  from assms mg sh rd r1 cb sl m sm fz
  have fc: "fc = \<lparr>fit_model = m, fit_compiled = cc, fit_generator = tg, epochs = ne,
      steps_per_epoch = st, validation_data = vg, validation_steps = vs,
      callbacks = [fst cb, snd cb], workers = 1\<rparr>" and w: "w = w1"
    by (auto simp: run_def)
  show thesis
    using ld sh m rd r1 cb sl sm fz fc w by (intro that [of img_train img_val n m used]) simp_all
qed


lemma ex_pick: "pick_architecture example_config 28 = Some example_model"
  by (simp add: pick_architecture_def example_config_def example_model_def)

lemma ex_fit: "fit_sizing example_args example_config [6400, 28, 28] = Inr (20, 200, 8)"
  using fit_sizing_value [of example_args "[6400, 28, 28]" 6400 example_config]
  by (simp add: example_args_def example_config_def shape_at_def)

lemma ex_run:
  "snd (run example_env example_args example_config example_world) =
     Inr \<lparr>fit_model = example_model,
          fit_compiled =
            \<lparr>compile_optimizer = Adam ''1e-3'', compile_loss = fourier_loss ''FREQ'' ''L1'',
             compile_metrics = [fourier_loss ''FREQ'' ''L1'', fourier_loss ''FREQ'' ''L2'',
                                image_loss ''FREQ'' ''L1'', image_loss ''FREQ'' ''L2'']\<rparr>,
          fit_generator = generate_data [6400, 28, 28] ''undersample'' ''FREQ'' ''FREQ'' (3 / 4) 32 ''train'',
          epochs = 20, steps_per_epoch = 200,
          validation_data = generate_data [1000, 28, 28] ''undersample'' ''FREQ'' ''FREQ'' (3 / 4) 32 ''val'',
          validation_steps = 8,
          callbacks = [ModelCheckpoint ''/train/loss_comparison_runs/run1*trial1/cp-{epoch:04d}.ckpt'',
                       TensorBoard ''/train/loss_comparison_runs/run1*trial1/tensorboard/''],
          workers = 1\<rparr>"
proof -
  have ld: "load_dataset example_env example_config = Some ([6400, 28, 28], [1000, 28, 28])"
    by (simp add: load_dataset_def example_env_def example_config_def)
  have sh: "shape_at [6400, 28, 28] (Suc 0) = Inr 28" by (simp add: shape_at_def)
  have sl: "select_loss example_config = Inr (fourier_loss ''FREQ'' ''L1'')"
    by (simp add: select_loss_def example_config_def)
  have od: "output_domain example_config = ''FREQ''" "task example_config = ''undersample''"
    "input_domain example_config = ''FREQ''" "corruption_frac example_config = 3 / 4"
    "batch_size example_config = 32"
    by (simp_all add: example_config_def)
  show ?thesis
    by (simp add: run_def ld make_generators_def sh ex_pick ex_run0 sl setup_model_def ex_fit od)
qed

lemma ex_rerun:
  "run_director example_env example_args example_config (Some example_model) example_world_rerun =
     (example_world_aborted,
      Inl (ValueError ''Tensorboard logs have already been created under this name.''))"
  by (simp add: ex_run1 example_world_aborted_def tb_exists_error_def)

subsection \<open>Job name, run directory and loss selection\<close>

lemma str_int_digit: "0 \<le> r \<Longrightarrow> r < 10 \<Longrightarrow> str_int r = [digit_char (nat r)]"
  by (simp add: str_int_def str_nat.simps)

lemma digit_char_range: "n < 10 \<Longrightarrow> digit_char n \<in> set ''0123456789''"
proof -
  assume "n < 10"
  then have "n \<in> {0, 1, 2, 3, 4, 5, 6, 7, 8, 9}" by auto
  then show ?thesis by (auto simp: digit_char_def)
qed

lemma drawn_digit: "0 \<le> r \<Longrightarrow> r < 10 \<Longrightarrow> digit_char (nat r) \<in> set ''0123456789''"
proof -
  assume "0 \<le> r" "r < 10"
  then have "nat r < 10" by arith
  then show ?thesis by (rule digit_char_range)
qed

text \<open>
  Claim C2.  Loss selection returns the Fourier-domain loss for the configured output domain
  when \<open>loss_type\<close> is \<^verbatim>\<open>freq\<close>, the image-domain loss when it is \<^verbatim>\<open>image\<close>, and raises
  (a \<^verbatim>\<open>ValueError\<close>, the spec's UnrecognizedLossTypeError) exactly when it is neither.
\<close>

theorem select_loss_spec:
  "select_loss (c\<lparr>loss_type := ''freq''\<rparr>) = Inr (fourier_loss (output_domain c) (loss c)) \<and>
   select_loss (c\<lparr>loss_type := ''image''\<rparr>) = Inr (image_loss (output_domain c) (loss c)) \<and>
   ((\<exists>e. select_loss c = Inl e) \<longleftrightarrow> (loss_type c \<noteq> ''image'' \<and> loss_type c \<noteq> ''freq'')) \<and>
   (loss_type c \<noteq> ''image'' \<and> loss_type c \<noteq> ''freq'' \<longrightarrow>
      select_loss c = Inl (ValueError ''Unrecognized loss type.''))"
  by (simp add: select_loss_def)

text \<open>The three cases at a concrete configuration.\<close>

theorem select_loss_spec_witness:
  "select_loss example_config = Inr (fourier_loss ''FREQ'' ''L1'') \<and>
   select_loss (example_config\<lparr>loss_type := ''image''\<rparr>) = Inr (image_loss ''FREQ'' ''L1'') \<and>
   select_loss (example_config\<lparr>loss_type := ''other''\<rparr>) = Inl (ValueError ''Unrecognized loss type.'')"
  using select_loss_spec [of example_config]
    select_loss_spec [of "example_config\<lparr>loss_type := ''other''\<rparr>"]
  by (simp add: example_config_def)

text \<open>
  Claim C3.  Without \<^verbatim>\<open>--debug\<close> and with a suffix \<open>s\<close>, the job name is the configured
  base name, a literal asterisk, and \<open>s\<close>; base \<^verbatim>\<open>run1\<close> with suffix \<^verbatim>\<open>trial1\<close> gives
  \<^verbatim>\<open>run1*trial1\<close>.
\<close>

theorem job_name_suffix:
  "\<not> debug args \<Longrightarrow> suffix args = Some s \<Longrightarrow>
   make_job_name exp_config args drawn = job_name exp_config @ ''*'' @ s"
  by (simp add: make_job_name_def)

text \<open>The example of the specification.\<close>

theorem job_name_suffix_witness:
  "\<not> debug example_args \<and> suffix example_args = Some ''trial1'' \<and>
   job_name example_config = ''run1'' \<and>
   make_job_name example_config example_args 0 = ''run1*trial1''"
  using job_name_suffix [of example_args "''trial1''" example_config 0]
  by (simp add: example_args_def example_config_def)

text \<open>
  Claim C4.  Under \<^verbatim>\<open>--debug\<close>, with the integer drawn from 0 to 9, the job name is
  \<^verbatim>\<open>debug_job\<close>, one digit, and then nothing or the asterisk of the suffix; the directory
  path is the training root whatever the experiment argument is, so the checkpoint
  directory does not depend on it.  The experiment segment is appended exactly when the
  argument is given and \<^verbatim>\<open>--debug\<close> is not.
\<close>

theorem debug_job_name_and_dir:
  "(debug args \<and> 0 \<le> drawn \<and> drawn < 10 \<longrightarrow>
      (\<exists>d rest. d \<in> set ''0123456789'' \<and>
         make_job_name exp_config args drawn = ''debug_job'' @ [d] @ rest \<and>
         (rest = [] \<or> hd rest = CHR ''*''))) \<and>
   (debug args \<longrightarrow> make_dir_path base args = base \<and>
      make_checkpoint_dir base exp_config (args\<lparr>experiment_arg := e\<rparr>) drawn =
      make_checkpoint_dir base exp_config args drawn) \<and>
   make_dir_path base args =
     (case experiment_arg args of
        Some x \<Rightarrow> if debug args then base else base @ x @ ''/''
      | None \<Rightarrow> base)"
proof (intro conjI impI)
  assume h: "debug args \<and> 0 \<le> drawn \<and> drawn < 10"
  then have d: "digit_char (nat drawn) \<in> set ''0123456789''"
    using drawn_digit [of drawn] by blast
  show "\<exists>d rest. d \<in> set ''0123456789'' \<and>
         make_job_name exp_config args drawn = ''debug_job'' @ [d] @ rest \<and>
         (rest = [] \<or> hd rest = CHR ''*'')"
  proof (cases "suffix args")
    case None
    with h d show ?thesis
      by (intro exI [of _ "digit_char (nat drawn)"] exI [of _ "[]"])
         (simp add: make_job_name_def str_int_digit)
  next
    case (Some s)
    with h d show ?thesis
      by (intro exI [of _ "digit_char (nat drawn)"] exI [of _ "''*'' @ s"])
         (simp add: make_job_name_def str_int_digit)
  qed
next
  assume "debug args"
  then show "make_dir_path base args = base"
    by (simp add: make_dir_path_def split: option.split)
next
  assume "debug args"
  then show "make_checkpoint_dir base exp_config (args\<lparr>experiment_arg := e\<rparr>) drawn =
      make_checkpoint_dir base exp_config args drawn"
    by (simp add: make_checkpoint_dir_def make_dir_path_def make_job_name_def split: option.split)
next
  show "make_dir_path base args =
     (case experiment_arg args of
        Some x \<Rightarrow> if debug args then base else base @ x @ ''/''
      | None \<Rightarrow> base)"
    by (simp add: make_dir_path_def split: option.split)
qed

text \<open>A debug run and a normal run with the same experiment argument.\<close>

theorem debug_job_name_and_dir_witness:
  "make_job_name example_config (example_args\<lparr>debug := True, suffix := None\<rparr>) 7 = ''debug_job7'' \<and>
   make_dir_path ''/train/'' (example_args\<lparr>debug := True\<rparr>) = ''/train/'' \<and>
   make_checkpoint_dir ''/train/'' example_config (example_args\<lparr>debug := True\<rparr>) 7 =
     ''/train/debug_job7*trial1'' \<and>
   make_dir_path ''/train/'' example_args = ''/train/loss_comparison_runs/''"
  using debug_job_name_and_dir
    [of "example_args\<lparr>debug := True, suffix := None\<rparr>" 7 example_config "''/train/''" None]
    debug_job_name_and_dir
    [of "example_args\<lparr>debug := True\<rparr>" 7 example_config "''/train/''" None]
    debug_job_name_and_dir [of example_args 7 example_config "''/train/''" None]
  by (simp add: example_args_def example_config_def make_job_name_def make_dir_path_def
      make_checkpoint_dir_def os_path_join_def str_int_def str_nat.simps digit_char_def)

text \<open>
  Claim C10.  Under \<^verbatim>\<open>--debug\<close> with a suffix \<open>s\<close>, the suffix is still appended: the job
  name is \<^verbatim>\<open>debug_job\<close>, a digit from 0 to 9, an asterisk, and \<open>s\<close>.
\<close>

theorem debug_job_name_keeps_suffix:
  "debug args \<Longrightarrow> suffix args = Some s \<Longrightarrow> 0 \<le> drawn \<Longrightarrow> drawn < 10 \<Longrightarrow>
   \<exists>d \<in> set ''0123456789''. make_job_name exp_config args drawn = ''debug_job'' @ [d] @ ''*'' @ s"
proof -
  assume h: "debug args" "suffix args = Some s" "0 \<le> drawn" "drawn < 10"
  then have "digit_char (nat drawn) \<in> set ''0123456789''"
    using drawn_digit [of drawn] by blast
  moreover from h have "make_job_name exp_config args drawn =
      ''debug_job'' @ [digit_char (nat drawn)] @ ''*'' @ s"
    by (simp add: make_job_name_def str_int_digit)
  ultimately show ?thesis by blast
qed

text \<open>A debug run with the suffix \<^verbatim>\<open>trial1\<close> and the digit 7.\<close>

theorem debug_job_name_keeps_suffix_witness:
  "debug (example_args\<lparr>debug := True\<rparr>) \<and> suffix (example_args\<lparr>debug := True\<rparr>) = Some ''trial1'' \<and>
   make_job_name example_config (example_args\<lparr>debug := True\<rparr>) 7 = ''debug_job7*trial1''"
  using debug_job_name_keeps_suffix [of "example_args\<lparr>debug := True\<rparr>" "''trial1''" 7 example_config]
  by (simp add: example_args_def make_job_name_def str_int_def str_nat.simps digit_char_def)

subsection \<open>Directories of a run\<close>

text \<open>
  Claim C7.  Creating the checkpoint directory is idempotent: when the directory exists the
  step does nothing and does not raise, and a second creation after a successful first one
  does not raise either.
\<close>

theorem checkpoint_dir_idempotent:
  "(os_path_exists (disk w) p \<longrightarrow> create_checkpoint_dir p w = (w, Inr ())) \<and>
   (create_checkpoint_dir p w = (w', Inr ()) \<longrightarrow> create_checkpoint_dir p w' = (w', Inr ()))"
proof (intro conjI impI)
  assume "os_path_exists (disk w) p"
  then show "create_checkpoint_dir p w = (w, Inr ())" by (simp add: create_checkpoint_dir_def)
next
  assume h: "create_checkpoint_dir p w = (w', Inr ())"
  from create_checkpoint_dir_result [OF h] have "os_path_exists (disk w') p" by auto
  then show "create_checkpoint_dir p w' = (w', Inr ())" by (simp add: create_checkpoint_dir_def)
qed

text \<open>A fresh directory created twice, and a directory that is already there.\<close>

theorem checkpoint_dir_idempotent_witness:
  "snd (create_checkpoint_dir ''/train/run1'' example_world) = Inr () \<and>
   create_checkpoint_dir ''/train/run1'' (fst (create_checkpoint_dir ''/train/run1'' example_world)) =
     (fst (create_checkpoint_dir ''/train/run1'' example_world), Inr ()) \<and>
   os_path_exists (disk example_world) ''/train/'' \<and>
   create_checkpoint_dir ''/train/'' example_world = (example_world, Inr ())"
proof -
  let ?w = "fst (create_checkpoint_dir ''/train/run1'' example_world)"
  have s: "snd (create_checkpoint_dir ''/train/run1'' example_world) = Inr ()"
    by (simp add: run_eval example_world_def example_disk_def)
  then have "create_checkpoint_dir ''/train/run1'' example_world = (?w, Inr ())"
    by (metis prod.collapse)
  with checkpoint_dir_idempotent [of example_world "''/train/run1''" ?w]
  have "create_checkpoint_dir ''/train/run1'' ?w = (?w, Inr ())" by simp
  moreover have e: "os_path_exists (disk example_world) ''/train/''"
    by (simp add: run_eval example_world_def example_disk_def)
  moreover from e checkpoint_dir_idempotent [of example_world "''/train/''"]
  have "create_checkpoint_dir ''/train/'' example_world = (example_world, Inr ())" by simp
  ultimately show ?thesis using s by simp
qed

text \<open>
  Claim C6.  When the tensorboard directory of the job exists, creating it raises the
  \<^verbatim>\<open>ValueError\<close> of line 159 (the spec's RunExistsError) and changes nothing; so a second attempt
  after a successful first one raises, and \<open>run_director\<close> started in any state where that
  directory exists ends in an error.
\<close>

theorem tensorboard_dir_exists_is_fatal:
  "(os_path_exists (disk w) tb \<longrightarrow>
      create_tensorboard_dir tb w =
        (w, Inl (ValueError ''Tensorboard logs have already been created under this name.''))) \<and>
   (create_tensorboard_dir tb w = (w', Inr ()) \<longrightarrow>
      create_tensorboard_dir tb w' =
        (w', Inl (ValueError ''Tensorboard logs have already been created under this name.''))) \<and>
   (os_path_exists (disk w0) (run_tb_dir env args cfg) \<longrightarrow>
      (\<exists>w1 e. run_director env args cfg model w0 = (w1, Inl e)))"
proof (intro conjI impI)
  assume "os_path_exists (disk w) tb"
  then show "create_tensorboard_dir tb w =
        (w, Inl (ValueError ''Tensorboard logs have already been created under this name.''))"
    by (simp add: create_tensorboard_dir_def)
next
  assume h: "create_tensorboard_dir tb w = (w', Inr ())"
  from create_tensorboard_dir_result [OF h] have "fs_makedirs (disk w) tb = Inr (disk w')"
    by (auto simp: tb_exists_error_def)
  then have "os_path_exists (disk w') tb" by (rule fs_makedirs_exists)
  then show "create_tensorboard_dir tb w' =
        (w', Inl (ValueError ''Tensorboard logs have already been created under this name.''))"
    by (simp add: create_tensorboard_dir_def)
next
  assume e: "os_path_exists (disk w0) (run_tb_dir env args cfg)"
  obtain w1 r where run: "run_director env args cfg model w0 = (w1, r)"
    by (cases "run_director env args cfg model w0")
  from run e have "\<exists>e. r = Inl e"
    by (cases rule: run_director_cases) auto
  with run show "\<exists>w1 e. run_director env args cfg model w0 = (w1, Inl e)" by auto
qed

text \<open>The directory of an earlier run, and a directory created twice.\<close>

theorem tensorboard_dir_exists_is_fatal_witness:
  "os_path_exists (disk example_world_rerun) ''/train/loss_comparison_runs/run1*trial1/tensorboard/'' \<and>
   create_tensorboard_dir ''/train/loss_comparison_runs/run1*trial1/tensorboard/'' example_world_rerun =
     (example_world_rerun,
      Inl (ValueError ''Tensorboard logs have already been created under this name.'')) \<and>
   snd (create_tensorboard_dir ''/train/run1/tensorboard/'' example_world) = Inr () \<and>
   snd (create_tensorboard_dir ''/train/run1/tensorboard/''
          (fst (create_tensorboard_dir ''/train/run1/tensorboard/'' example_world))) =
     Inl (ValueError ''Tensorboard logs have already been created under this name.'') \<and>
   (\<exists>w e. run_director example_env example_args example_config None example_world_rerun = (w, Inl e))"
proof -
  let ?tb = "''/train/loss_comparison_runs/run1*trial1/tensorboard/''"
  let ?w = "fst (create_tensorboard_dir ''/train/run1/tensorboard/'' example_world)"
  have e: "os_path_exists (disk example_world_rerun) ?tb"
    by (simp add: run_eval example_world_rerun_def example_disk_rerun_def example_disk_def)
  have tb: "run_tb_dir example_env example_args example_config = ?tb" by (rule ex_paths)
  have s: "snd (create_tensorboard_dir ''/train/run1/tensorboard/'' example_world) = Inr ()"
    by (simp add: run_eval example_world_def example_disk_def)
  then have c: "create_tensorboard_dir ''/train/run1/tensorboard/'' example_world = (?w, Inr ())"
    by (metis prod.collapse)
  from e tb tensorboard_dir_exists_is_fatal [of example_world_rerun ?tb example_world_rerun
      example_world_rerun example_env example_args example_config None]
  have "create_tensorboard_dir ?tb example_world_rerun =
     (example_world_rerun,
      Inl (ValueError ''Tensorboard logs have already been created under this name.''))"
    and "\<exists>w e. run_director example_env example_args example_config None example_world_rerun = (w, Inl e)"
    by simp_all
  moreover from c tensorboard_dir_exists_is_fatal [of example_world "''/train/run1/tensorboard/''" ?w]
  have "snd (create_tensorboard_dir ''/train/run1/tensorboard/'' ?w) =
     Inl (ValueError ''Tensorboard logs have already been created under this name.'')"
    by simp
  ultimately show ?thesis using e s by simp
qed

text \<open>
  Claim C9.  The changes \<open>run_director\<close> makes to the file system come in one order: the
  checkpoint directory (when it is not there yet), the copy of the config file under
  \<open>job_name\<close> followed by \<^verbatim>\<open>_config.ini\<close>, the summary file, the tensorboard directory; whatever
  the outcome, what was done is an initial part of that sequence.  When the run stops with
  the error for an existing tensorboard directory, the first three are done: the checkpoint
  directory exists, the copy and the summary can be read.  The summary file and the
  tensorboard directory are entries of the checkpoint directory, and so is the copy when the
  job name has no separator in it.
\<close>

theorem run_director_effect_order:
  assumes run: "run_director env args cfg model w0 = (w, r)"
  shows "(\<exists>n. effects w = effects w0 @ take n
            ((if os_path_exists (disk w0) (run_checkpoint_dir env args cfg) then []
              else [Makedirs (run_checkpoint_dir env args cfg)]) @
             [Copyfile (config args) (run_config_copy env args cfg),
              Open_w (run_summary_file env args cfg)] @
             (case model of
                None \<Rightarrow> []
              | Some m \<Rightarrow> [Write (run_summary_file env args cfg) (summary_text env m),
                            Makedirs (run_tb_dir env args cfg)]))) \<and>
         (r = Inl (ValueError ''Tensorboard logs have already been created under this name.'') \<longrightarrow>
            (\<exists>m c. model = Some m \<and>
               effects w = effects w0 @
                 (if os_path_exists (disk w0) (run_checkpoint_dir env args cfg) then []
                  else [Makedirs (run_checkpoint_dir env args cfg)]) @
                 [Copyfile (config args) (run_config_copy env args cfg),
                  Open_w (run_summary_file env args cfg),
                  Write (run_summary_file env args cfg) (summary_text env m)] \<and>
               os_path_exists (disk w) (run_checkpoint_dir env args cfg) \<and>
               fs_read (disk w) (run_config_copy env args cfg) = Inr c \<and>
               fs_read (disk w) (run_summary_file env args cfg) = Inr (summary_text env m) \<and>
               os_path_exists (disk w) (run_tb_dir env args cfg))) \<and>
         ((\<exists>x. r = Inr x) \<longrightarrow>
            (\<exists>m. model = Some m \<and>
               effects w = effects w0 @
                 (if os_path_exists (disk w0) (run_checkpoint_dir env args cfg) then []
                  else [Makedirs (run_checkpoint_dir env args cfg)]) @
                 [Copyfile (config args) (run_config_copy env args cfg),
                  Open_w (run_summary_file env args cfg),
                  Write (run_summary_file env args cfg) (summary_text env m),
                  Makedirs (run_tb_dir env args cfg)])) \<and>
         components (run_summary_file env args cfg) =
           components (run_checkpoint_dir env args cfg) @ [''summary.txt''] \<and>
         components (run_tb_dir env args cfg) =
           components (run_checkpoint_dir env args cfg) @ [''tensorboard''] \<and>
         (CHR ''/'' \<notin> set (make_job_name cfg args (randint_0_10 env)) \<longrightarrow>
            components (run_config_copy env args cfg) =
              components (run_checkpoint_dir env args cfg) @
              [make_job_name cfg args (randint_0_10 env) @ ''_config.ini''])"
  (is "(\<exists>n. effects w = effects w0 @ take n (?first @ ?mid @ ?rest)) \<and> ?B \<and> ?C \<and> ?D")
proof -
  have inside: ?D by (simp add: run_paths_inside)
  from run show ?thesis
  proof (cases rule: run_director_cases)
    case (ckpt_failed s)
    then have "effects w = effects w0 @ take 0 (?first @ ?mid @ ?rest)" by simp
    with ckpt_failed show ?thesis using inside by blast
  next
    case (copy_failed s)
    have "effects w = effects w0 @ take (length ?first) (?first @ ?mid @ ?rest)"
      using copy_failed(2) by simp
    with copy_failed(1) show ?thesis using inside by blast
  next
    case (summary_failed s c)
    have "effects w = effects w0 @ take (length ?first + 1) (?first @ ?mid @ ?rest)"
      using summary_failed(2) by simp
    with summary_failed(1) show ?thesis using inside by blast
  next
    case (model_unbound c)
    have "effects w = effects w0 @ take (length ?first + 2) (?first @ ?mid @ ?rest)"
      using model_unbound(3) by simp
    with model_unbound(2) show ?thesis using inside by blast
  next
    case (run_exists m c)
    have "effects w = effects w0 @ take (length ?first + 3) (?first @ ?mid @ ?rest)"
      using run_exists(1,3) by simp
    moreover have ?B using run_exists by auto
    moreover have ?C using run_exists(2) by (simp add: tb_exists_error_def)
    ultimately show ?thesis using inside by blast
  next
    case (tb_failed m s)
    have "effects w = effects w0 @ take (length ?first + 3) (?first @ ?mid @ ?rest)"
      using tb_failed(1,3) by simp
    with tb_failed(2) show ?thesis using inside by blast
  next
    case (finished m c)
    have "effects w = effects w0 @ take (length ?first + 4) (?first @ ?mid @ ?rest)"
      using finished(1,3) by simp
    moreover have ?C using finished by auto
    moreover have ?B using finished(2) by simp
    ultimately show ?thesis using inside by blast
  qed
qed

text \<open>A second run of the same job, stopped at the tensorboard directory.\<close>

theorem run_director_effect_order_witness:
  "run_director example_env example_args example_config (Some example_model) example_world_rerun =
     (example_world_aborted,
      Inl (ValueError ''Tensorboard logs have already been created under this name.'')) \<and>
   effects example_world_aborted =
     [Copyfile ''/configs/run1.ini''
        ''/train/loss_comparison_runs/run1*trial1/run1*trial1_config.ini'',
      Open_w ''/train/loss_comparison_runs/run1*trial1/summary.txt'',
      Write ''/train/loss_comparison_runs/run1*trial1/summary.txt''
        (summary_text example_env example_model)] \<and>
   os_path_exists (disk example_world_aborted) ''/train/loss_comparison_runs/run1*trial1'' \<and>
   (\<exists>c. fs_read (disk example_world_aborted)
      ''/train/loss_comparison_runs/run1*trial1/run1*trial1_config.ini'' = Inr c) \<and>
   fs_read (disk example_world_aborted) ''/train/loss_comparison_runs/run1*trial1/summary.txt'' =
     Inr (summary_text example_env example_model)"
proof -
  note t = run_director_effect_order [OF ex_rerun, THEN conjunct2, THEN conjunct1, rule_format,
      OF refl, unfolded ex_paths]
  from t obtain m c where m: "Some example_model = Some m"
    and 1: "os_path_exists (disk example_world_aborted) ''/train/loss_comparison_runs/run1*trial1''"
    and 2: "fs_read (disk example_world_aborted)
      ''/train/loss_comparison_runs/run1*trial1/run1*trial1_config.ini'' = Inr c"
    and 3: "fs_read (disk example_world_aborted)
      ''/train/loss_comparison_runs/run1*trial1/summary.txt'' = Inr (summary_text example_env m)"
    by (elim exE conjE)
  from m have m': "m = example_model" by (simp only: option.inject)
  have ef: "effects example_world_aborted =
     [Copyfile ''/configs/run1.ini''
        ''/train/loss_comparison_runs/run1*trial1/run1*trial1_config.ini'',
      Open_w ''/train/loss_comparison_runs/run1*trial1/summary.txt'',
      Write ''/train/loss_comparison_runs/run1*trial1/summary.txt''
        (summary_text example_env example_model)]"
    by (simp add: example_world_aborted_def)
  from 2 have "\<exists>c. fs_read (disk example_world_aborted)
      ''/train/loss_comparison_runs/run1*trial1/run1*trial1_config.ini'' = Inr c" ..
  with ex_rerun ef 1 3 [unfolded m'] show ?thesis by (intro conjI)
qed

subsection \<open>Sizing the fit loop\<close>

text \<open>
  Claim C5.  The fit loop is sized by the debug flag alone: with \<^verbatim>\<open>--debug\<close> it is 5 epochs,
  2 steps per epoch and 1 validation step; without, the epochs are the configured
  \<open>num_epochs\<close>, the steps per epoch are the floor of the train array's first dimension over
  the batch size, and the validation steps are 8.  The script divides through a double
  (\<^verbatim>\<open>int(a / b)\<close>); for a positive batch size and a dimension below \<open>2 ^ 53\<close> the result
  is the integer quotient.  Every run that reaches \<^verbatim>\<open>fit_generator\<close> passes these numbers.
\<close>

theorem fit_sizing_spec:
  "(debug args \<longrightarrow> fit_sizing args cfg img_train = Inr (5, 2, 1)) \<and>
   (\<not> debug args \<and> shape_at img_train 0 = Inr train_set_size \<and> train_set_size < 2 ^ 53 \<and>
    0 < batch_size cfg \<longrightarrow>
      fit_sizing args cfg img_train =
        Inr (num_epochs cfg, \<lfloor>real train_set_size / real_of_int (batch_size cfg)\<rfloor>, 8) \<and>
      \<lfloor>real train_set_size / real_of_int (batch_size cfg)\<rfloor> = int train_set_size div batch_size cfg) \<and>
   (run env args cfg w0 = (w, Inr fc) \<longrightarrow>
      (\<exists>img_train img_val. load_dataset env cfg = Some (img_train, img_val) \<and>
         fit_sizing args cfg img_train = Inr (epochs fc, steps_per_epoch fc, validation_steps fc)))"
proof (intro conjI impI)
  assume "debug args"
  then show "fit_sizing args cfg img_train = Inr (5, 2, 1)" by (simp add: fit_sizing_def)
next
  assume h: "\<not> debug args \<and> shape_at img_train 0 = Inr train_set_size \<and> train_set_size < 2 ^ 53 \<and>
    0 < batch_size cfg"
  have fl: "\<lfloor>real train_set_size / real_of_int (batch_size cfg)\<rfloor> = int train_set_size div batch_size cfg"
    by (metis floor_divide_of_int_eq of_int_of_nat_eq)
  then show "\<lfloor>real train_set_size / real_of_int (batch_size cfg)\<rfloor> = int train_set_size div batch_size cfg" .
  from h fl show "fit_sizing args cfg img_train =
        Inr (num_epochs cfg, \<lfloor>real train_set_size / real_of_int (batch_size cfg)\<rfloor>, 8)"
    by (simp add: fit_sizing_value)
next
  assume "run env args cfg w0 = (w, Inr fc)"
  then show "\<exists>img_train img_val. load_dataset env cfg = Some (img_train, img_val) \<and>
         fit_sizing args cfg img_train = Inr (epochs fc, steps_per_epoch fc, validation_steps fc)"
    by (rule run_Inr) blast
qed

text \<open>The example of the specification: 6400 images in batches of 32.\<close>

theorem fit_sizing_spec_witness:
  "fit_sizing (example_args\<lparr>debug := True\<rparr>) example_config [6400, 28, 28] = Inr (5, 2, 1) \<and>
   fit_sizing example_args example_config [6400, 28, 28] = Inr (20, 200, 8) \<and>
   fit_sizing example_args (example_config\<lparr>num_epochs := 3\<rparr>) [6400, 28, 28] = Inr (3, 200, 8)"
  using fit_sizing_spec [of "example_args\<lparr>debug := True\<rparr>" example_config "[6400, 28, 28]" 6400]
    fit_sizing_spec [of example_args example_config "[6400, 28, 28]" 6400]
    fit_sizing_spec [of example_args "example_config\<lparr>num_epochs := 3\<rparr>" "[6400, 28, 28]" 6400]
  by (simp add: example_args_def example_config_def shape_at_def)

subsection \<open>Metrics and architecture\<close>

text \<open>
  Claim C8.  Whatever \<open>loss_type\<close> and \<open>loss\<close> are, the metrics bound by \<^verbatim>\<open>model.compile\<close> are the
  same four, for the configured output domain: Fourier L1, Fourier L2, image L1, image L2.
  They are passed as metrics; the loss passed to the optimizer is the selected one.
\<close>

theorem auxiliary_metrics_fixed:
  "(setup_model cfg (Some m) used_loss = Inr (m', cc) \<longrightarrow>
      compile_metrics cc =
        [fourier_loss (output_domain cfg) ''L1'', fourier_loss (output_domain cfg) ''L2'',
         image_loss (output_domain cfg) ''L1'', image_loss (output_domain cfg) ''L2''] \<and>
      length (compile_metrics cc) = 4 \<and> compile_loss cc = used_loss) \<and>
   setup_model (cfg\<lparr>loss_type := lt, loss := l\<rparr>) model used_loss = setup_model cfg model used_loss \<and>
   (run env args cfg w0 = (w, Inr fc) \<longrightarrow>
      compile_metrics (fit_compiled fc) =
        [fourier_loss (output_domain cfg) ''L1'', fourier_loss (output_domain cfg) ''L2'',
         image_loss (output_domain cfg) ''L1'', image_loss (output_domain cfg) ''L2''] \<and>
      select_loss cfg = Inr (compile_loss (fit_compiled fc)))"
proof (intro conjI impI)
  assume h: "setup_model cfg (Some m) used_loss = Inr (m', cc)"
  then show "compile_metrics cc =
        [fourier_loss (output_domain cfg) ''L1'', fourier_loss (output_domain cfg) ''L2'',
         image_loss (output_domain cfg) ''L1'', image_loss (output_domain cfg) ''L2'']"
    by (auto simp: setup_model_def)
  from h show "length (compile_metrics cc) = 4" by (auto simp: setup_model_def)
  from h show "compile_loss cc = used_loss" by (auto simp: setup_model_def)
next
  show "setup_model (cfg\<lparr>loss_type := lt, loss := l\<rparr>) model used_loss = setup_model cfg model used_loss"
    by (simp add: setup_model_def)
next
  assume "run env args cfg w0 = (w, Inr fc)"
  then obtain m used where sl: "select_loss cfg = Inr used"
    and sm: "setup_model cfg (Some m) used = Inr (fit_model fc, fit_compiled fc)"
    by (rule run_Inr)
  from sm have cc: "fit_compiled fc =
      \<lparr>compile_optimizer = Adam ''1e-3'', compile_loss = used,
       compile_metrics =
         [fourier_loss (output_domain cfg) ''L1'', fourier_loss (output_domain cfg) ''L2'',
          image_loss (output_domain cfg) ''L1'', image_loss (output_domain cfg) ''L2'']\<rparr>"
    by (auto simp: setup_model_def)
  then show "compile_metrics (fit_compiled fc) =
        [fourier_loss (output_domain cfg) ''L1'', fourier_loss (output_domain cfg) ''L2'',
         image_loss (output_domain cfg) ''L1'', image_loss (output_domain cfg) ''L2'']"
    by simp
  from cc sl show "select_loss cfg = Inr (compile_loss (fit_compiled fc))" by simp
qed

text \<open>A run with the Fourier L1 loss, and a compile call with the image L2 loss.\<close>

theorem auxiliary_metrics_fixed_witness:
  "(\<exists>fc. snd (run example_env example_args example_config example_world) = Inr fc \<and>
      compile_metrics (fit_compiled fc) =
        [fourier_loss ''FREQ'' ''L1'', fourier_loss ''FREQ'' ''L2'',
         image_loss ''FREQ'' ''L1'', image_loss ''FREQ'' ''L2''] \<and>
      compile_loss (fit_compiled fc) = fourier_loss ''FREQ'' ''L1'') \<and>
   (\<exists>cc. setup_model example_config (Some example_model) (image_loss ''FREQ'' ''L2'') =
            Inr (example_model, cc) \<and>
      compile_metrics cc =
        [fourier_loss ''FREQ'' ''L1'', fourier_loss ''FREQ'' ''L2'',
         image_loss ''FREQ'' ''L1'', image_loss ''FREQ'' ''L2''] \<and>
      compile_loss cc = image_loss ''FREQ'' ''L2'')"
proof -
  obtain w fc where r: "run example_env example_args example_config example_world = (w, Inr fc)"
    using ex_run by (cases "run example_env example_args example_config example_world") auto
  obtain cc where c: "setup_model example_config (Some example_model) (image_loss ''FREQ'' ''L2'') =
      Inr (example_model, cc)"
    by (simp add: setup_model_def)
  have od: "output_domain example_config = ''FREQ''" by (simp add: example_config_def)
  from auxiliary_metrics_fixed [of example_config example_model "image_loss ''FREQ'' ''L2''"
      example_model cc "''freq''" "''L1''" None example_env example_args example_world w fc] r c od
  have "compile_metrics (fit_compiled fc) =
        [fourier_loss ''FREQ'' ''L1'', fourier_loss ''FREQ'' ''L2'',
         image_loss ''FREQ'' ''L1'', image_loss ''FREQ'' ''L2'']"
    and "compile_metrics cc =
        [fourier_loss ''FREQ'' ''L1'', fourier_loss ''FREQ'' ''L2'',
         image_loss ''FREQ'' ''L1'', image_loss ''FREQ'' ''L2'']"
    and "compile_loss cc = image_loss ''FREQ'' ''L2''"
    by simp_all
  moreover from r ex_run have "compile_loss (fit_compiled fc) = fourier_loss ''FREQ'' ''L1''"
    by auto
  ultimately show ?thesis using r c by auto
qed

text \<open>
  Claim C1, which the script does not meet.  For an architecture other than the three known
  ones the dispatch raises nothing and binds no model: the run goes on to create the
  checkpoint directory, copy the config file and open the summary file, and stops only where
  the name \<^verbatim>\<open>model\<close> is first read, with a \<^verbatim>\<open>NameError\<close> (or earlier, with an error of the file
  system).  No run with such an architecture reaches training.
\<close>

theorem unknown_architecture_binds_no_model:
  assumes "architecture cfg \<noteq> ''CONV''" "architecture cfg \<noteq> ''CONV_RESIDUAL''"
    "architecture cfg \<noteq> ''INTERLACER_RESIDUAL''"
  shows "pick_architecture cfg n = None \<and>
    (run_director env args cfg (pick_architecture cfg n) w0 = (w, r) \<longrightarrow>
       r = Inl (NameError ''model'') \<or> (\<exists>s. r = Inl (OSError s))) \<and>
    (run_director env args cfg (pick_architecture cfg n) w0 = (w, Inl (NameError ''model'')) \<longrightarrow>
       effects w = effects w0 @
         (if os_path_exists (disk w0) (run_checkpoint_dir env args cfg) then []
          else [Makedirs (run_checkpoint_dir env args cfg)]) @
         [Copyfile (config args) (run_config_copy env args cfg),
          Open_w (run_summary_file env args cfg)] \<and>
       os_path_exists (disk w) (run_checkpoint_dir env args cfg) \<and>
       fs_read (disk w) (run_summary_file env args cfg) = Inr []) \<and>
    (run env args cfg w0 = (w', r') \<longrightarrow> (\<exists>e. r' = Inl e))"
proof -
  from assms have none: "pick_architecture cfg n = None" for n
    by (simp add: pick_architecture_def)
  have a: "r = Inl (NameError ''model'') \<or> (\<exists>s. r = Inl (OSError s))"
    if "run_director env args cfg None w0 = (w, r)"
    using that by (cases rule: run_director_cases) auto
  have b: "effects w = effects w0 @
         (if os_path_exists (disk w0) (run_checkpoint_dir env args cfg) then []
          else [Makedirs (run_checkpoint_dir env args cfg)]) @
         [Copyfile (config args) (run_config_copy env args cfg),
          Open_w (run_summary_file env args cfg)] \<and>
       os_path_exists (disk w) (run_checkpoint_dir env args cfg) \<and>
       fs_read (disk w) (run_summary_file env args cfg) = Inr []"
    if "run_director env args cfg None w0 = (w, Inl (NameError ''model''))"
    using that by (cases rule: run_director_cases) auto
  have c: "\<exists>e. r' = Inl e" if "run env args cfg w0 = (w', r')"
  proof (cases r')
    case (Inl e)
    then show ?thesis by simp
  next
    case (Inr fc)
    with that have "run env args cfg w0 = (w', Inr fc)" by simp
    then show ?thesis by (rule run_Inr) (simp add: none)
  qed
  from none a b c show ?thesis by simp
qed

text \<open>The architecture \<^verbatim>\<open>UNET\<close> in an otherwise valid configuration.\<close>

theorem unknown_architecture_binds_no_model_witness:
  "pick_architecture (example_config\<lparr>architecture := ''UNET''\<rparr>) 28 = None \<and>
   snd (run example_env example_args (example_config\<lparr>architecture := ''UNET''\<rparr>) example_world) =
     Inl (NameError ''model'') \<and>
   effects (fst (run example_env example_args (example_config\<lparr>architecture := ''UNET''\<rparr>)
       example_world)) =
     [Makedirs ''/train/loss_comparison_runs/run1*trial1'',
      Copyfile ''/configs/run1.ini''
        ''/train/loss_comparison_runs/run1*trial1/run1*trial1_config.ini'',
      Open_w ''/train/loss_comparison_runs/run1*trial1/summary.txt'']"
proof -
  let ?cfg = "example_config\<lparr>architecture := ''UNET''\<rparr>"
  have p: "pick_architecture ?cfg 28 = None"
    using unknown_architecture_binds_no_model [of ?cfg 28] by (simp add: example_config_def)
  have ld: "load_dataset example_env ?cfg = Some ([6400, 28, 28], [1000, 28, 28])"
    by (simp add: load_dataset_def example_env_def example_config_def)
  have sh: "shape_at [6400, 28, 28] (Suc 0) = Inr 28" by (simp add: shape_at_def)
  have rd: "run_director example_env example_args ?cfg None example_world =
      run_director example_env example_args example_config None example_world"
    by (simp add: run_director_def make_job_name_def)
  show ?thesis
    by (simp add: p run_def ld make_generators_def sh rd ex_run0)
qed

end
